theory Spec2Isabelle
  imports Main "HOL-Library.AList" "HOL-Library.Multiset"
begin

section \<open>Data model\<close>

text \<open>
  The repository holds two variants of the class \<^verbatim>\<open>BatchCall\<close>: the one in
  \<^verbatim>\<open>src/batchCall.js\<close> (one read per method, optionally at one block, with the ABI
  cache inline) and the block-sampling one in \<^verbatim>\<open>src/unnamed/part_000\<close> (a range of
  blocks per method, constant filtering, response simplification, the ABI cache moved to
  a store object). Definitions of the block-sampling variant carry the source's names;
  those of \<^verbatim>\<open>batchCall.js\<close> that would clash are prefixed with \<open>batchCall_\<close>.
\<close>

subsection \<open>JavaScript values\<close>

text \<open>
  Values that pass through the engine untouched (call arguments, values returned by the
  transport). Numbers are integers here; the engine only tests such a value for
  truthiness.
\<close>

datatype jsval =
    JUndefined
  | JNull
  | JBool bool
  | JNum int
  | JStr string
  | JArr "jsval list"
  | JObj "(string \<times> jsval) list"

fun truthy :: "jsval \<Rightarrow> bool" where
  "truthy JUndefined = False"
| "truthy JNull = False"
| "truthy (JBool b) = b"
| "truthy (JNum n) = (n \<noteq> 0)"
| "truthy (JStr s) = (s \<noteq> [])"
| "truthy (JArr xs) = True"
| "truthy (JObj kvs) = True"

subsection \<open>ABI, request and collaborators\<close>

text \<open>
  An ABI is an array of field descriptors. \<open>f_name\<close> is \<open>None\<close> for a descriptor
  without a name (constructor, fallback); \<open>f_inputs\<close> and \<open>f_outputs\<close> are the
  parameter types (an absent list has \<^verbatim>\<open>_.size\<close> 0, like the empty one);
  \<open>f_constant\<close> is the descriptor's own \<^verbatim>\<open>constant\<close> flag.
\<close>

record abiField =
  f_name :: "string option"
  f_inputs :: "string list"
  f_outputs :: "string list"
  f_stateMutability :: string
  f_constant :: bool

type_synonym abi = "abiField list"

text \<open>
  An entry of \<^verbatim>\<open>readMethods\<close>: \<^verbatim>\<open>{ name, args, constant }\<close>. \<open>m_args\<close> is \<open>None\<close>
  when \<^verbatim>\<open>args\<close> is absent; \<open>m_constant\<close> is the truthiness of the entry's own
  \<^verbatim>\<open>constant\<close> property.
\<close>

record methodSpec =
  m_name :: string
  m_args :: "jsval list option"
  m_constant :: bool

text \<open>A pre-bound contract handle: \<^verbatim>\<open>item.options.address\<close>, \<^verbatim>\<open>item.options.jsonInterface\<close>.\<close>

record boundContract =
  c_address :: string
  c_jsonInterface :: abi

text \<open>One entry of the batch request (\<^verbatim>\<open>contractConfig\<close>); absent properties are \<open>None\<close>.\<close>

record contractGroup =
  g_addresses :: "string list option"
  g_contracts :: "boundContract list option"
  g_namespace :: "string option"
  g_readMethods :: "methodSpec list option"
  g_allReadMethods :: bool
  g_abi :: "abi option"

text \<open>A request added to the batch: the call descriptor.\<close>

record call =
  call_address :: string
  call_name :: string
  call_args :: "jsval list"
  call_block :: "int option"

text \<open>
  What the transport does with one request: \<^verbatim>\<open>methodCall.request(...)\<close> throws an error
  with a message, or the request is built and, once the batch is executed, its callback
  is invoked with \<^verbatim>\<open>(err, data)\<close>. \<open>err\<close> is \<open>None\<close> when falsy, else the message of the
  error object.
\<close>

datatype outcome =
    RequestThrows string
  | Callback "string option" jsval

text \<open>
  The collaborators, which are not part of the repository: the web3 instance (block
  height, the \<^verbatim>\<open>methods\<close> surface of a contract handle built from an ABI and an
  address, the ABI encoder, the transport), the \<^verbatim>\<open>md5\<close> package and the remote ABI
  service (address and API key to the parsed ABI, \<open>None\<close> when the request or the parsing
  fails). \<open>jsString\<close> is the conversion of the runtime from a value to a property key.
  Operations of a collaborator that the source calls outside any \<^verbatim>\<open>try\<close> are
  taken to return, and every callback of an executed batch to be invoked once.
\<close>

record collab =
  getBlockNumber :: int
  contractMethods :: "abi option \<Rightarrow> string \<Rightarrow> string \<Rightarrow> bool"
  encodeFunctionCall :: "abiField option \<Rightarrow> jsval list \<Rightarrow> string"
  request :: "call \<Rightarrow> outcome"
  md5 :: "abi \<Rightarrow> string"
  fetch :: "string \<Rightarrow> string \<Rightarrow> abi option"
  jsString :: "jsval \<Rightarrow> string"

subsection \<open>Engine state, errors, console\<close>

text \<open>
  The instance fields of both constructors. A JavaScript object used as a dictionary is a
  map; \<open>readContracts\<close> only ever stores \<^verbatim>\<open>true\<close>, so it is the set of its keys. In the
  block-sampling variant the two cache dictionaries are the state of its store object.
  \<open>etherscanApiKey\<close> is \<open>None\<close> for \<^verbatim>\<open>null\<close>. The delay after a remote fetch is real
  time and is left out.
\<close>

record engine =
  etherscanApiKey :: "string option"
  abiHashByAddress :: "string \<rightharpoonup> string"
  abiByHash :: "string \<rightharpoonup> abi"
  groupByNamespace :: bool
  clearMemoryAfterExecution :: bool
  logging :: bool
  simplifyResponse :: bool
  readContracts :: "string set"

text \<open>
  Errors: the two errors \<^verbatim>\<open>fetchAbi\<close> throws, the \<^verbatim>\<open>TypeError\<close> of the runtime
  when a property of \<^verbatim>\<open>undefined\<close> is read or a non-function is called, and an error of
  the transport with its message.
\<close>

datatype error =
    NoEtherscanApiKey
  | EtherscanError
  | TypeError
  | TransportError string

text \<open>Console lines (the execution time of the statistics line is left out).\<close>

datatype logLine =
    MethodCallFailed string string
  | MethodErr
  | Statistics nat

section \<open>ABI cache (batchCall.js)\<close>

text \<open>
  \<^verbatim>\<open>getAbiFromCache\<close>: \<^verbatim>\<open>this.abiByHash[this.abiHashByAddress[address]]\<close>. For an
  address without a hash the second lookup is at the key \<^verbatim>\<open>"undefined"\<close>.
\<close>

definition getAbiFromCache :: "engine \<Rightarrow> string \<Rightarrow> abi option" where
  "getAbiFromCache this address =
     (case abiHashByAddress this address of
        None \<Rightarrow> abiByHash this ''undefined''
      | Some abiHash \<Rightarrow> abiByHash this abiHash)"

text \<open>The inner function \<^verbatim>\<open>cacheAbi\<close> of \<^verbatim>\<open>addAbiToCache\<close>.\<close>

definition cacheAbi :: "collab \<Rightarrow> string \<Rightarrow> abi \<Rightarrow> engine \<Rightarrow> engine" where
  "cacheAbi w address newAbi this =
     (let abiHash = md5 w newAbi
      in this\<lparr>abiByHash := (abiByHash this)(abiHash \<mapsto> newAbi),
              abiHashByAddress := (abiHashByAddress this)(address \<mapsto> abiHash)\<rparr>)"

text \<open>
  \<^verbatim>\<open>fetchAbi\<close>: throws when the API key is \<^verbatim>\<open>null\<close>, before any request; any failure
  of the request or of the parsing is rethrown as the Etherscan error.
\<close>

definition fetchAbi :: "collab \<Rightarrow> engine \<Rightarrow> string \<Rightarrow> error + abi" where
  "fetchAbi w this address =
     (case etherscanApiKey this of
        None \<Rightarrow> Inl NoEtherscanApiKey
      | Some key \<Rightarrow>
          (case fetch w address key of
             None \<Rightarrow> Inl EtherscanError
           | Some abi \<Rightarrow> Inr abi))"

text \<open>
  \<^verbatim>\<open>addAbiToCache(address, providedAbi)\<close>. A provided ABI is an array, hence truthy, and
  so is a cached one.
\<close>

definition addAbiToCache :: "collab \<Rightarrow> string \<Rightarrow> abi option \<Rightarrow> engine \<Rightarrow> error + engine" where
  "addAbiToCache w address providedAbi this =
     (let cachedAbi = getAbiFromCache this address
      in case providedAbi of
           Some abi \<Rightarrow> Inr (cacheAbi w address abi this)
         | None \<Rightarrow>
             (if cachedAbi = None
              then (case fetchAbi w this address of
                      Inl e \<Rightarrow> Inl e
                    | Inr abi \<Rightarrow> Inr (cacheAbi w address abi this))
              else Inr this))"

text \<open>\<^verbatim>\<open>getReadableAbiFields\<close>: the reducer \<^verbatim>\<open>getReadableFields\<close> over the cached ABI.\<close>

definition getReadableFields :: "string list \<Rightarrow> abiField \<Rightarrow> string list" where
  "getReadableFields acc field =
     (let nbrInputs = length (f_inputs field);
          nbrOutputs = length (f_outputs field);
          hasInputs = nbrInputs > 0;
          hasOutputs = nbrOutputs > 0;
          viewable = (f_stateMutability field = ''view'')
      in case f_name field of
           Some name \<Rightarrow>
             (if \<not> hasInputs \<and> hasOutputs \<and> name \<noteq> [] \<and> viewable then acc @ [name] else acc)
         | None \<Rightarrow> acc)"

definition getReadableAbiFields :: "engine \<Rightarrow> string \<Rightarrow> string list" where
  "getReadableAbiFields this address =
     (case getAbiFromCache this address of
        None \<Rightarrow> []
      | Some abi \<Rightarrow> foldl getReadableFields [] abi)"

text \<open>
  The loop \<^verbatim>\<open>addAbis\<close> of \<^verbatim>\<open>execute\<close> over the addresses of one group:
  \<^verbatim>\<open>for (const address of addresses) await this.addAbiToCache(address, abi)\<close>. Iterating
  an absent \<^verbatim>\<open>addresses\<close> is a \<^verbatim>\<open>TypeError\<close>. An error ends the loop; what was cached
  before it stays cached, so the state is returned beside the error.
\<close>

fun addAbisLoop :: "collab \<Rightarrow> abi option \<Rightarrow> string list \<Rightarrow> engine \<Rightarrow> error option \<times> engine" where
  "addAbisLoop w abi [] this = (None, this)"
| "addAbisLoop w abi (address # addresses) this =
     (case addAbiToCache w address abi this of
        Inl e \<Rightarrow> (Some e, this)
      | Inr this' \<Rightarrow> addAbisLoop w abi addresses this')"

definition addAbis :: "collab \<Rightarrow> contractGroup \<Rightarrow> engine \<Rightarrow> error option \<times> engine" where
  "addAbis w contractBatch this =
     (case g_addresses contractBatch of
        None \<Rightarrow> (Some TypeError, this)
      | Some addresses \<Rightarrow> addAbisLoop w (g_abi contractBatch) addresses this)"

text \<open>
  The loop of \<^verbatim>\<open>execute\<close> over the groups: a group without \<^verbatim>\<open>contracts\<close> gets its
  ABIs cached. (An array, also the empty one, is truthy.)
\<close>

fun addAbisAll :: "collab \<Rightarrow> contractGroup list \<Rightarrow> engine \<Rightarrow> error option \<times> engine" where
  "addAbisAll w [] this = (None, this)"
| "addAbisAll w (contractBatch # contractsBatch) this =
     (case g_contracts contractBatch of
        None \<Rightarrow>
          (case addAbis w contractBatch this of
             (Some e, this') \<Rightarrow> (Some e, this')
           | (None, this') \<Rightarrow> addAbisAll w contractsBatch this')
      | Some contracts \<Rightarrow> addAbisAll w contractsBatch this)"

section \<open>Block sampling (execute, "Build list of blocks to read")\<close>

text \<open>
  The block list of \<^verbatim>\<open>execute\<close> in the block-sampling variant of the engine:
  \<^verbatim>\<open>
    let blocks = [];
    let blockNumberIterator = 0;
    while (blockNumberIterator < blockHeight) {
      const blockNumber = currentBlockNumber - blockNumberIterator;
      blocks.push(blockNumber);
      blockNumberIterator += blockResolution;
    }
    blocks = _.reverse(blocks);
  \<close>
  Block numbers and both options are integers. The loop does not end when
  \<open>blockResolution \<le> 0 < blockHeight\<close>, so it is a partial function: \<open>None\<close> is
  "never returns".
\<close>

partial_function (option) blocksLoop :: "int \<Rightarrow> int \<Rightarrow> int \<Rightarrow> int \<Rightarrow> int list \<Rightarrow> int list option" where
  "blocksLoop currentBlockNumber blockHeight blockResolution blockNumberIterator blocks =
     (if blockNumberIterator < blockHeight
      then blocksLoop currentBlockNumber blockHeight blockResolution
             (blockNumberIterator + blockResolution)
             (blocks @ [currentBlockNumber - blockNumberIterator])
      else Some blocks)"

definition buildBlocks :: "int \<Rightarrow> int \<Rightarrow> int \<Rightarrow> int list option" where
  "buildBlocks currentBlockNumber blockHeight blockResolution =
     map_option rev (blocksLoop currentBlockNumber blockHeight blockResolution 0 [])"


section \<open>Request expansion (block-sampling variant)\<close>

subsection \<open>The store object\<close>

text \<open>
  Modelled from the spec: the class \<^verbatim>\<open>AbiStorage\<close> (\<^verbatim>\<open>./utils/abiStorage\<close>) behind
  \<^verbatim>\<open>this.store\<close> is not among the sources. The specification's ABI cache has
  \<open>ensure(address, suppliedAbi)\<close> (a supplied ABI is cached unconditionally; else, if
  nothing is cached, the ABI is fetched and cached; else nothing happens; without a
  credential the fetch fails), \<open>get(address)\<close> and \<open>listReadableFields(address)\<close> (the
  names of the cached ABI's fields with no input, an output, a name and state mutability
  \<open>view\<close>; empty when nothing is cached). These are the operations of \<^verbatim>\<open>batchCall.js\<close>
  above, on the same two dictionaries.
\<close>

definition store_addAbiToCache :: "collab \<Rightarrow> string \<Rightarrow> abi option \<Rightarrow> engine \<Rightarrow> error + engine" where
  "store_addAbiToCache = addAbiToCache"

text \<open>
  Modelled from the spec: \<^verbatim>\<open>store.getAbiFromCache\<close> of the missing \<^verbatim>\<open>AbiStorage\<close>, the
  specification's \<open>get(address)\<close>: the cached ABI or nothing.
\<close>

definition store_getAbiFromCache :: "engine \<Rightarrow> string \<Rightarrow> abi option" where
  "store_getAbiFromCache = getAbiFromCache"

text \<open>
  Modelled from the spec: \<^verbatim>\<open>store.getReadableAbiFields\<close> of the missing \<^verbatim>\<open>AbiStorage\<close>,
  the specification's \<open>listReadableFields(address)\<close>.
\<close>

definition store_getReadableAbiFields :: "engine \<Rightarrow> string \<Rightarrow> string list" where
  "store_getReadableAbiFields = getReadableAbiFields"

subsection \<open>Results of the expansion\<close>

text \<open>What \<^verbatim>\<open>addBlockToBatch\<close> resolves with: \<^verbatim>\<open>{ value: data, blockNumber }\<close>.\<close>

record sample =
  s_value :: jsval
  s_blockNumber :: int

text \<open>
  What \<^verbatim>\<open>addMethodToBatch\<close> resolves with:
  \<^verbatim>\<open>{ address, input, method, values, args }\<close>. An element of \<open>r_values\<close> is \<open>None\<close> where
  \<^verbatim>\<open>addBlockToBatch\<close> resolved with \<^verbatim>\<open>undefined\<close>.
\<close>

record methodResult =
  r_address :: string
  r_input :: "string option"
  r_method :: string
  r_values :: "sample option list"
  r_args :: "jsval list option"

text \<open>What \<^verbatim>\<open>addAddressToBatch\<close> resolves with: \<^verbatim>\<open>{ address, namespace, state }\<close>.\<close>

record addressCall =
  a_address :: string
  a_namespace :: string
  a_state :: "methodResult option list"

text \<open>
  What a part of the expansion does besides returning: the requests it adds to the batch
  (\<^verbatim>\<open>batch.add\<close>, each counted in \<^verbatim>\<open>numberOfMethods\<close>), the console lines it causes,
  and the addresses it marks in \<^verbatim>\<open>readContracts\<close> once its promises have resolved.
  Console lines are listed per call, in the order of the calls.
\<close>

record effects =
  calls :: "call list"
  logs :: "logLine list"
  marks :: "string list"

definition noEffects :: effects where
  "noEffects = \<lparr>calls = [], logs = [], marks = []\<rparr>"

definition seqEffects :: "effects \<Rightarrow> effects \<Rightarrow> effects" where
  "seqEffects e1 e2 =
     \<lparr>calls = calls e1 @ calls e2, logs = logs e1 @ logs e2, marks = marks e1 @ marks e2\<rparr>"

definition allEffects :: "effects list \<Rightarrow> effects" where
  "allEffects es = foldr seqEffects es noEffects"

text \<open>
  \<^verbatim>\<open>Promise.all\<close> over promises that have all settled: the first rejection, else the
  list of the values.
\<close>

fun promiseAll :: "('e + 'a) list \<Rightarrow> 'e + 'a list" where
  "promiseAll [] = Inr []"
| "promiseAll (Inl e # ps) = Inl e"
| "promiseAll (Inr x # ps) = (case promiseAll ps of Inl e \<Rightarrow> Inl e | Inr xs \<Rightarrow> Inr (x # xs))"

subsection \<open>addBlockToBatch\<close>

text \<open>
  \<^verbatim>\<open>
    new Promise((blockResolve) => {
      try {
        const returnResponse = (blockNumber, err, data) => {
          if (err) { console.log(`[BatchCall] ${address}: method call failed: ${name}`); }
          blockResolve({ value: data, blockNumber });
        };
        let req;
        req = methodCall.request(blockNumber, returnResponse.bind(null, blockNumber));
        numberOfMethods += 1;
        batch.add(req);
      } catch (err) {
        console.log("method err");
        blockResolve();
      }
    });
  \<close>
  \<open>methodCall\<close> is the call descriptor without its block.
\<close>

definition addBlockToBatch :: "collab \<Rightarrow> string \<Rightarrow> call \<Rightarrow> string \<Rightarrow> int \<Rightarrow> sample option \<times> effects" where
  "addBlockToBatch w address methodCall name blockNumber =
     (let req = methodCall\<lparr>call_block := Some blockNumber\<rparr>
      in case request w req of
           RequestThrows msg \<Rightarrow> (None, \<lparr>calls = [], logs = [MethodErr], marks = []\<rparr>)
         | Callback err data \<Rightarrow>
             (Some \<lparr>s_value = data, s_blockNumber = blockNumber\<rparr>,
              \<lparr>calls = [req],
               logs = (if err \<noteq> None then [MethodCallFailed address name] else []),
               marks = []\<rparr>))"

subsection \<open>addMethodToBatch\<close>

text \<open>\<^verbatim>\<open>_.find(abi, { name })\<close>: the first descriptor of that name; nothing in an absent ABI.\<close>

definition findAbiMethod :: "abi option \<Rightarrow> string \<Rightarrow> abiField option" where
  "findAbiMethod abi name =
     (case abi of
        None \<Rightarrow> None
      | Some descriptors \<Rightarrow> find (\<lambda>field. f_name field = Some name) descriptors)"

text \<open>
  \<^verbatim>\<open>
    const { name, args } = method;
    const abiMethod = _.find(abi, { name });
    const methodExists = _.get(contract.methods, name);
    if (!methodExists) { return Promise.resolve(); }
    const nbrAbiArgsForMethod = _.size(abiMethod.inputs);
    const newArgs = _.take(args, nbrAbiArgsForMethod);
    if (newArgs) { methodCall = contract.methods[name](...newArgs).call; } else { ... }
    const input = args && web3.eth.abi.encodeFunctionCall(abiMethod, newArgs);
    const blocksPromises = await blocks.map(addBlockToBatch.bind(null, ...));
    const blocksState = await Promise.all(blocksPromises);
    readContracts[address] = true;
    return Promise.resolve({ address, input, method: method.name, values: blocksState, args });
  \<close>
  \<open>newArgs\<close> is an array, hence truthy. Reading \<^verbatim>\<open>abiMethod.inputs\<close> of an
  \<^verbatim>\<open>undefined\<close> \<open>abiMethod\<close> throws, which rejects the promise of this method only.
\<close>

definition addMethodToBatch ::
  "collab \<Rightarrow> int list \<Rightarrow> abi option \<Rightarrow> string \<Rightarrow> methodSpec \<Rightarrow> (error + methodResult option) \<times> effects" where
  "addMethodToBatch w blocks abi address method =
     (let name = m_name method;
          args = m_args method;
          abiMethod = findAbiMethod abi name;
          methodExists = contractMethods w abi address name
      in if \<not> methodExists then (Inr None, noEffects)
         else case abiMethod of
           None \<Rightarrow> (Inl TypeError, noEffects)
         | Some field \<Rightarrow>
             (let nbrAbiArgsForMethod = length (f_inputs field);
                  newArgs = take nbrAbiArgsForMethod (case args of None \<Rightarrow> [] | Some xs \<Rightarrow> xs);
                  methodCall = \<lparr>call_address = address, call_name = name,
                                call_args = newArgs, call_block = None\<rparr>;
                  input = map_option (\<lambda>xs. encodeFunctionCall w abiMethod newArgs) args;
                  blocksPromises = map (addBlockToBatch w address methodCall name) blocks;
                  blocksState = map fst blocksPromises
              in (Inr (Some \<lparr>r_address = address, r_input = input, r_method = name,
                              r_values = blocksState, r_args = args\<rparr>),
                  seqEffects (allEffects (map snd blocksPromises))
                             \<lparr>calls = [], logs = [], marks = [address]\<rparr>)))"

subsection \<open>addAddressToBatch\<close>

text \<open>An element of \<^verbatim>\<open>addresses\<close> (a string) or of \<^verbatim>\<open>contracts\<close> (a handle).\<close>

datatype item = AddressItem string | ContractItem boundContract

definition formatField :: "string \<Rightarrow> methodSpec" where
  "formatField name = \<lparr>m_name = name, m_args = None, m_constant = False\<rparr>"

text \<open>
  \<^verbatim>\<open>
    const filterOutConstants = (method) => {
      const readContractAtLeastOnce = readContracts[address];
      const { constant } = method;
      if (constant && readContractAtLeastOnce) { return false; }
      return true;
    };
  \<close>
  \<open>method\<close> is an entry of the request (or a \<^verbatim>\<open>{ name }\<close> made by \<open>formatField\<close>), not
  a descriptor of the ABI.
\<close>

definition filterOutConstants :: "string set \<Rightarrow> string \<Rightarrow> methodSpec \<Rightarrow> bool" where
  "filterOutConstants readContracts' address method =
     (let readContractAtLeastOnce = (address \<in> readContracts');
          constant = m_constant method
      in if constant \<and> readContractAtLeastOnce then False else True)"

text \<open>
  \<^verbatim>\<open>addAddressToBatch(batch, readMethods, allReadMethods, namespace, item)\<close>. The
  function is \<^verbatim>\<open>async\<close> and runs synchronously up to its first \<^verbatim>\<open>await\<close>, whose operand
  \<^verbatim>\<open>allMethods.map(addMethodToBatch...)\<close> is evaluated first; each \<open>addMethodToBatch\<close>
  in turn runs synchronously through \<^verbatim>\<open>blocks.map(addBlockToBatch...)\<close>. The filter
  therefore reads \<open>readContracts\<close> as it is when the expansion starts, and the two
  assignments \<^verbatim>\<open>readContracts[address] = true\<close> (here, after all methods resolved, and
  in \<open>addMethodToBatch\<close>) run in continuations after the whole batch has been expanded
  and executed: they are returned as marks.
\<close>

definition addAddressToBatch ::
  "collab \<Rightarrow> engine \<Rightarrow> int list \<Rightarrow> methodSpec list \<Rightarrow> bool \<Rightarrow> string \<Rightarrow> item
     \<Rightarrow> (error + addressCall) \<times> effects" where
  "addAddressToBatch w this blocks readMethods allReadMethods namespace item' =
     (let (address, abi) =
            (case item' of
               ContractItem c \<Rightarrow> (c_address c, Some (c_jsonInterface c))
             | AddressItem a \<Rightarrow> (a, store_getAbiFromCache this a));
          allMethods = readMethods @
            (if allReadMethods then map formatField (store_getReadableAbiFields this address)
             else []);
          allMethods = filter (filterOutConstants (readContracts this) address) allMethods;
          methodsPromises = map (addMethodToBatch w blocks abi address) allMethods;
          methodsEffects = allEffects (map snd methodsPromises)
      in case promiseAll (map fst methodsPromises) of
           Inl e \<Rightarrow> (Inl e, methodsEffects)
         | Inr methodsState \<Rightarrow>
             (Inr \<lparr>a_address = address, a_namespace = namespace, a_state = methodsState\<rparr>,
              seqEffects methodsEffects \<lparr>calls = [], logs = [], marks = [address]\<rparr>))"

subsection \<open>addContractToBatch\<close>

text \<open>
  \<^verbatim>\<open>
    const { addresses, contracts, namespace = "default", readMethods = [], allReadMethods }
      = contractConfig;
    const objectToIterateOver = addresses || contracts;
    const addressPromises = await objectToIterateOver.map(addAddressToBatch.bind(...));
    return await Promise.all(addressPromises);
  \<close>
\<close>

definition objectToIterateOver :: "contractGroup \<Rightarrow> item list option" where
  "objectToIterateOver contractConfig =
     (case g_addresses contractConfig of
        Some addresses \<Rightarrow> Some (map AddressItem addresses)
      | None \<Rightarrow> map_option (map ContractItem) (g_contracts contractConfig))"

definition namespaceOf :: "contractGroup \<Rightarrow> string" where
  "namespaceOf contractConfig =
     (case g_namespace contractConfig of None \<Rightarrow> ''default'' | Some namespace \<Rightarrow> namespace)"

definition readMethodsOf :: "contractGroup \<Rightarrow> methodSpec list" where
  "readMethodsOf contractConfig =
     (case g_readMethods contractConfig of None \<Rightarrow> [] | Some readMethods \<Rightarrow> readMethods)"

definition addContractToBatch ::
  "collab \<Rightarrow> engine \<Rightarrow> int list \<Rightarrow> contractGroup \<Rightarrow> (error + addressCall list) \<times> effects" where
  "addContractToBatch w this blocks contractConfig =
     (case objectToIterateOver contractConfig of
        None \<Rightarrow> (Inl TypeError, noEffects)
      | Some items \<Rightarrow>
          (let addressPromises =
                 map (addAddressToBatch w this blocks (readMethodsOf contractConfig)
                        (g_allReadMethods contractConfig) (namespaceOf contractConfig)) items
           in (promiseAll (map fst addressPromises), allEffects (map snd addressPromises))))"

subsection \<open>Auxiliary notions for the properties\<close>

text \<open>Whether the transport built the request (so that it was added to the batch).\<close>

fun isCallback :: "outcome \<Rightarrow> bool" where
  "isCallback (RequestThrows msg) = False"
| "isCallback (Callback err data) = True"

text \<open>The address of an item, and the addresses a batch names, group by group.\<close>

fun itemAddress :: "item \<Rightarrow> string" where
  "itemAddress (AddressItem a) = a"
| "itemAddress (ContractItem c) = c_address c"


text \<open>The ABI \<open>addAddressToBatch\<close> builds the contract handle of an item from.\<close>

fun itemAbi :: "engine \<Rightarrow> item \<Rightarrow> abi option" where
  "itemAbi this (AddressItem a) = store_getAbiFromCache this a"
| "itemAbi this (ContractItem c) = Some (c_jsonInterface c)"

text \<open>
  For comparison only: what an address resolved with, without the \<^verbatim>\<open>undefined\<close>
  results of skipped methods.
\<close>

definition dropSkipped :: "addressCall \<Rightarrow> addressCall" where
  "dropSkipped addressCall' =
     addressCall'\<lparr>a_state := filter (\<lambda>r. r \<noteq> None) (a_state addressCall')\<rparr>"

section \<open>Result tree\<close>

text \<open>
  A bucket of a method entry (\<^verbatim>\<open>methodArg\<close>): \<^verbatim>\<open>{ values, input, args }\<close> in the
  block-sampling variant, \<^verbatim>\<open>{ value, input, args }\<close> in \<^verbatim>\<open>batchCall.js\<close>; after
  \<open>flattenArgs\<close> a bucket of the former may hold \<^verbatim>\<open>value\<close> in place of \<^verbatim>\<open>values\<close>.
  \<open>None\<close> is a property the object does not have.
\<close>

record bucket =
  b_value :: "jsval option"
  b_values :: "sample option list option"
  b_input :: "string option"
  b_args :: "jsval list option"

text \<open>
  An address node is an object, kept as an association list in the order in which the
  properties were set: \<^verbatim>\<open>address\<close>, \<^verbatim>\<open>namespace\<close>, then one property per method. A
  property holds a string or an array of buckets. Assigning a property is
  \<open>AList.update\<close>, so a method named like an existing property overwrites it. Method
  names are taken to be free of the path syntax of \<^verbatim>\<open>_.get\<close> (dots, brackets), and
  not to be \<^verbatim>\<open>__proto__\<close> (assigning that property of a fresh node replaces its
  prototype). The runtime enumerates a property named like an array index before the
  others; the order of a node's properties plays no part in what follows, where nodes
  are compared as objects (\<open>map_of\<close>).
\<close>

datatype entry = Text string | Buckets "bucket list"

type_synonym node = "(string \<times> entry) list"

text \<open>After \<open>flattenArgs\<close> a property may also hold a bare value or an array of samples.\<close>

datatype flatEntry =
    FlatText string
  | FlatBuckets "bucket list"
  | FlatValue jsval
  | FlatSamples "sample option list"

type_synonym flatNode = "(string \<times> flatEntry) list"

fun findIndex :: "('a \<Rightarrow> bool) \<Rightarrow> 'a list \<Rightarrow> nat option" where
  "findIndex P [] = None"
| "findIndex P (x # xs) = (if P x then Some 0 else map_option Suc (findIndex P xs))"

text \<open>A loop whose body may throw: \<^verbatim>\<open>_.each\<close> and \<^verbatim>\<open>_.reduce\<close> with an accumulator.\<close>

fun foldE :: "('a \<Rightarrow> 'b \<Rightarrow> error + 'b) \<Rightarrow> 'a list \<Rightarrow> 'b \<Rightarrow> error + 'b" where
  "foldE f [] acc = Inr acc"
| "foldE f (x # xs) acc = (case f x acc of Inl e \<Rightarrow> Inl e | Inr acc' \<Rightarrow> foldE f xs acc')"

text \<open>\<^verbatim>\<open>_.map\<close> with a function that may throw.\<close>

fun mapE :: "('a \<Rightarrow> error + 'b) \<Rightarrow> 'a list \<Rightarrow> error + 'b list" where
  "mapE f [] = Inr []"
| "mapE f (x # xs) =
     (case f x of
        Inl e \<Rightarrow> Inl e
      | Inr y \<Rightarrow> (case mapE f xs of Inl e \<Rightarrow> Inl e | Inr ys \<Rightarrow> Inr (y # ys)))"

subsection \<open>formatContractsState\<close>

text \<open>
  The body of \<^verbatim>\<open>addMethodResults\<close> of both variants after the result has been
  destructured; \<open>methodArg\<close> is the fresh bucket before the two \<^verbatim>\<open>delete\<close>s.
  \<^verbatim>\<open>
    const addressResult = _.find(acc, { address }) || {};
    const foundAddressResult = _.size(addressResult);
    const methodArgs = _.get(addressResult, method, []);
    const existingMethodInput = _.find(methodArgs, { input });
    if (!input) { delete methodArg.input; }
    if (!args) { delete methodArg.args; }
    if (!existingMethodInput && foundAddressResult) {
      methodArgs.push(methodArg);
      addressResult[method] = methodArgs;
    }
    if (!input && foundAddressResult) { addressResult[method] = [methodArg]; }
    if (!foundAddressResult) {
      const newAddressResult = { address, namespace };
      newAddressResult[method] = [methodArg];
      acc.push(newAddressResult);
    }
  \<close>
  A node found by its \<^verbatim>\<open>address\<close> property has that property, so its size is not 0.
  \<^verbatim>\<open>_.find(methodArgs, { input })\<close> with an \<^verbatim>\<open>undefined\<close> \<open>input\<close> matches only an
  object that has the property \<^verbatim>\<open>input\<close>, and no bucket without an input has it. When the
  property named \<open>method\<close> holds a string (the method is named \<^verbatim>\<open>address\<close> or
  \<^verbatim>\<open>namespace\<close>), no character of it matches and \<^verbatim>\<open>methodArgs.push\<close> is not a function.
  \<^verbatim>\<open>_.get\<close> reads inherited properties too: when a found node has no property of its
  own named \<open>method\<close> but every object inherits one (\<^verbatim>\<open>toString\<close>, \<^verbatim>\<open>constructor\<close>,
  ...), \<open>methodArgs\<close> is that inherited value, nothing in it matches, and again
  \<^verbatim>\<open>methodArgs.push\<close> is not a function. For the empty object of an address not found
  nothing is pushed, and the new node gets the property as its own.
\<close>

definition inheritedProperty :: "string \<Rightarrow> bool" where
  "inheritedProperty name =
     (name \<in> set [''constructor'', ''toString'', ''toLocaleString'', ''valueOf'',
                   ''hasOwnProperty'', ''isPrototypeOf'', ''propertyIsEnumerable'',
                   ''__defineGetter__'', ''__defineSetter__'', ''__lookupGetter__'',
                   ''__lookupSetter__'', ''__proto__''])"

definition mergeMethodArg ::
  "string \<Rightarrow> string \<Rightarrow> string \<Rightarrow> string option \<Rightarrow> bucket \<Rightarrow> node list \<Rightarrow> error + node list" where
  "mergeMethodArg address namespace method input methodArg0 acc =
     (let noInput = (case input of None \<Rightarrow> True | Some s \<Rightarrow> s = []);
          methodArg = (if noInput then methodArg0\<lparr>b_input := None\<rparr> else methodArg0)
      in case findIndex (\<lambda>n. map_of n ''address'' = Some (Text address)) acc of
           None \<Rightarrow>
             Inr (acc @ [AList.update method (Buckets [methodArg])
                           [(''address'', Text address), (''namespace'', Text namespace)]])
         | Some i \<Rightarrow>
             (let addressResult = acc ! i
              in case map_of addressResult method of
                   Some (Text s) \<Rightarrow> Inl TypeError
                 | Some (Buckets methodArgs) \<Rightarrow>
                     (let existingMethodInput =
                            (case input of
                               None \<Rightarrow> None
                             | Some s \<Rightarrow> find (\<lambda>b. b_input b = Some s) methodArgs);
                          addressResult =
                            (if existingMethodInput = None
                             then AList.update method (Buckets (methodArgs @ [methodArg])) addressResult
                             else addressResult);
                          addressResult =
                            (if noInput
                             then AList.update method (Buckets [methodArg]) addressResult
                             else addressResult)
                      in Inr (acc[i := addressResult]))
                 | None \<Rightarrow>
                     (if inheritedProperty method then Inl TypeError
                      else
                        (let addressResult =
                               AList.update method (Buckets [methodArg]) addressResult
                         in Inr (acc[i := addressResult])))))"

text \<open>
  \<^verbatim>\<open>addMethodResults\<close> of the block-sampling variant: a falsy \<open>result\<close> (a method that
  was skipped) leaves the accumulator as it is.
\<close>

definition addMethodResults ::
  "string \<Rightarrow> string \<Rightarrow> methodResult option \<Rightarrow> node list \<Rightarrow> error + node list" where
  "addMethodResults address namespace result acc =
     (case result of
        None \<Rightarrow> Inr acc
      | Some r \<Rightarrow>
          mergeMethodArg address namespace (r_method r) (r_input r)
            \<lparr>b_value = None, b_values = Some (r_values r), b_input = r_input r, b_args = r_args r\<rparr>
            acc)"

definition addAddressCalls :: "addressCall \<Rightarrow> node list \<Rightarrow> error + node list" where
  "addAddressCalls addressCall' acc =
     foldE (addMethodResults (a_address addressCall') (a_namespace addressCall'))
       (a_state addressCall') acc"

definition formatContractsState :: "node list \<Rightarrow> addressCall list \<Rightarrow> error + node list" where
  "formatContractsState acc contractConfig = foldE addAddressCalls contractConfig acc"

subsection \<open>flattenArgs\<close>

text \<open>
  The first half of \<^verbatim>\<open>flattenVal\<close>, on the bucket \<^verbatim>\<open>contract[key][idx]\<close>:
  \<^verbatim>\<open>
    const innerVals = value.values;
    const onlyOneVal = _.size(innerVals) === 1;
    if (onlyOneVal) {
      contract[key][idx].value = innerVals[0].value;
      delete contract[key][idx].values;
    }
  \<close>
  Reading \<^verbatim>\<open>.value\<close> of an \<^verbatim>\<open>undefined\<close> sample throws.
\<close>

definition flattenVal :: "bucket \<Rightarrow> error + bucket" where
  "flattenVal value' =
     (case b_values value' of
        Some [innerVal] \<Rightarrow>
          (case innerVal of
             None \<Rightarrow> Inl TypeError
           | Some s \<Rightarrow> Inr (value'\<lparr>b_value := Some (s_value s), b_values := None\<rparr>))
      | _ \<Rightarrow> Inr value')"

text \<open>
  The second half of \<^verbatim>\<open>flattenVal\<close>, which replaces the whole property:
  \<^verbatim>\<open>
    const onlyOneArg = _.size(values) === 1;
    if (onlyOneArg && this.simplifyResponse) {
      const { value } = values[0];
      if (value) { contract[key] = value; }
      else { contract[key] = _.get(values, `[0].values`); }
    }
  \<close>
  It runs with \<open>onlyOneArg\<close> only when the array has one bucket, hence in the one
  iteration of index 0, after the first half has rewritten that bucket.
\<close>

definition simplifyOnlyArg :: "bucket \<Rightarrow> flatEntry" where
  "simplifyOnlyArg value0 =
     (let value' = (case b_value value0 of None \<Rightarrow> JUndefined | Some v \<Rightarrow> v)
      in if truthy value' then FlatValue value'
         else (case b_values value0 of
                 None \<Rightarrow> FlatValue JUndefined
               | Some innerVals \<Rightarrow> FlatSamples innerVals))"

text \<open>\<^verbatim>\<open>flattenArg(values, key)\<close>: only arrays are flattened.\<close>

definition flattenArg :: "bool \<Rightarrow> entry \<Rightarrow> error + flatEntry" where
  "flattenArg simplify vals =
     (case vals of
        Text s \<Rightarrow> Inr (FlatText s)
      | Buckets bs \<Rightarrow>
          (case mapE flattenVal bs of
             Inl e \<Rightarrow> Inl e
           | Inr bs' \<Rightarrow>
               (if length bs = 1 \<and> simplify then Inr (simplifyOnlyArg (hd bs'))
                else Inr (FlatBuckets bs'))))"

definition flattenArgs :: "bool \<Rightarrow> node \<Rightarrow> error + flatNode" where
  "flattenArgs simplify contract =
     mapE (\<lambda>(key, vals). case flattenArg simplify vals of
                             Inl e \<Rightarrow> Inl e
                           | Inr v \<Rightarrow> Inr (key, v)) contract"

subsection \<open>Grouping by namespace\<close>

text \<open>
  The order in which the runtime enumerates the properties of an object: those named
  like an array index (\<^verbatim>\<open>"0"\<close>, or digits without a leading zero, of a value below 4294967295)
  first, in ascending numeric order, then the others in the order in which they were
  created. An object built property by property is an association list in creation
  order; \<open>ownProperties\<close> is the list as it is enumerated.
\<close>

definition decimalValue :: "string \<Rightarrow> nat" where
  "decimalValue s = foldl (\<lambda>n c. 10 * n + (of_char c - 48)) 0 s"

definition isArrayIndex :: "string \<Rightarrow> bool" where
  "isArrayIndex s =
     (s \<noteq> [] \<and> list_all (\<lambda>c. c \<in> set ''0123456789'') s
      \<and> (s = ''0'' \<or> hd s \<noteq> CHR ''0'') \<and> decimalValue s < 4294967295)"

definition objectKeys :: "string list \<Rightarrow> string list" where
  "objectKeys ks =
     sort_key decimalValue (filter isArrayIndex ks) @ filter (\<lambda>k. \<not> isArrayIndex k) ks"

definition ownProperties :: "(string \<times> 'a) list \<Rightarrow> (string \<times> 'a) list" where
  "ownProperties kvs =
     sort_key (\<lambda>kv. decimalValue (fst kv)) (filter (\<lambda>kv. isArrayIndex (fst kv)) kvs) @
     filter (\<lambda>kv. \<not> isArrayIndex (fst kv)) kvs"

text \<open>
  \<^verbatim>\<open>_.groupBy(contractsState, "namespace")\<close>: an object from the value of each node's
  \<^verbatim>\<open>namespace\<close> property, as a property key, to the array of the nodes that have it, in
  their order. The keys are created in the order in which they first occur.
\<close>

definition groupByObject :: "('a \<Rightarrow> string) \<Rightarrow> 'a list \<Rightarrow> (string \<times> 'a list) list" where
  "groupByObject key xs =
     foldl (\<lambda>acc x. case map_of acc (key x) of
                       None \<Rightarrow> acc @ [(key x, [x])]
                     | Some ys \<Rightarrow> AList.update (key x) (ys @ [x]) acc) [] xs"

definition groupBy :: "('a \<Rightarrow> string) \<Rightarrow> 'a list \<Rightarrow> (string \<times> 'a list) list" where
  "groupBy key xs = ownProperties (groupByObject key xs)"

definition joinComma :: "string list \<Rightarrow> string" where
  "joinComma ss = (case ss of [] \<Rightarrow> [] | s # rest \<Rightarrow> s @ concat (map (\<lambda>t. '','' @ t) rest))"

text \<open>The property key made of the \<^verbatim>\<open>namespace\<close> property of a node of either kind.\<close>

definition namespaceKey :: "node \<Rightarrow> string" where
  "namespaceKey contract =
     (case map_of contract ''namespace'' of
        None \<Rightarrow> ''undefined''
      | Some (Text s) \<Rightarrow> s
      | Some (Buckets bs) \<Rightarrow> joinComma (map (\<lambda>b. ''[object Object]'') bs))"

definition flatNamespaceKey :: "collab \<Rightarrow> flatNode \<Rightarrow> string" where
  "flatNamespaceKey w contract =
     (case map_of contract ''namespace'' of
        None \<Rightarrow> ''undefined''
      | Some (FlatText s) \<Rightarrow> s
      | Some (FlatBuckets bs) \<Rightarrow> joinComma (map (\<lambda>b. ''[object Object]'') bs)
      | Some (FlatValue v) \<Rightarrow> jsString w v
      | Some (FlatSamples xs) \<Rightarrow>
          joinComma (map (\<lambda>x. case x of None \<Rightarrow> [] | Some s \<Rightarrow> ''[object Object]'') xs))"

text \<open>
  \<^verbatim>\<open>_.reduce(contractsStateByNamespace, removeNamespaceKey, {})\<close> goes through the
  groups as they are enumerated and builds the object that is returned:
  \<^verbatim>\<open>
    const removeNamespaceKey = (acc, contracts, key) => {
      const omitNamespace = (contract) => _.omit(contract, "namespace");
      acc[key] = _.map(contracts, omitNamespace);
      return acc;
    };
  \<close>
\<close>

definition omitNamespace :: "(string \<times> 'e) list \<Rightarrow> (string \<times> 'e) list" where
  "omitNamespace contract = AList.delete ''namespace'' contract"

definition removeNamespaceKey ::
  "(string \<times> (string \<times> 'e) list list) list \<Rightarrow> (string \<times> 'e) list list \<Rightarrow> string
     \<Rightarrow> (string \<times> (string \<times> 'e) list list) list" where
  "removeNamespaceKey acc contracts key = AList.update key (map omitNamespace contracts) acc"

definition groupContractsByNamespace ::
  "((string \<times> 'e) list \<Rightarrow> string) \<Rightarrow> (string \<times> 'e) list list
     \<Rightarrow> (string \<times> (string \<times> 'e) list list) list" where
  "groupContractsByNamespace key contractsState =
     (let contractsStateByNamespace = groupBy key contractsState
      in ownProperties
           (foldl (\<lambda>acc (k, contracts). removeNamespaceKey acc contracts k) []
              contractsStateByNamespace))"

subsection \<open>Flattening a namespaced tree\<close>


text \<open>
  The keys of a list in the order of their first occurrence, and the namespaces of a
  tree as the runtime enumerates them once each is a property of the grouped object.
\<close>

definition firstKeys :: "string list \<Rightarrow> string list" where
  "firstKeys ks = rev (remdups (rev ks))"

definition bucketKeys :: "('a \<Rightarrow> string) \<Rightarrow> 'a list \<Rightarrow> string list" where
  "bucketKeys key contractsState = objectKeys (firstKeys (map key contractsState))"

section \<open>execute (block-sampling variant)\<close>

text \<open>\<^verbatim>\<open>callOptions\<close>; an absent option is \<open>None\<close> and defaults to 1.\<close>

record callOptions =
  o_blockHeight :: "int option"
  o_blockResolution :: "int option"

text \<open>
  What \<open>execute\<close> returns: the flat tree, or the object from namespace to nodes; in
  \<^verbatim>\<open>batchCall.js\<close> also the object \<^verbatim>\<open>{ error: err.message }\<close>, kept as the error whose
  message it holds.
\<close>

datatype 'n response =
    Tree "'n list"
  | Namespaced "(string \<times> 'n list) list"
  | ErrorObject error

text \<open>
  One run of \<open>execute\<close>: what the promise settles with (\<open>Inl\<close> when it rejects), whether
  \<^verbatim>\<open>batch.execute()\<close> was reached, the requests added to the batch, the console lines,
  and the engine once every continuation has run.
\<close>

record 'n execution =
  result :: "error + 'n response"
  batchExecuted :: bool
  added :: "call list"
  console :: "logLine list"
  after :: engine

definition blockOption :: "int option \<Rightarrow> int" where
  "blockOption opt = (case opt of None \<Rightarrow> 1 | Some n \<Rightarrow> n)"

text \<open>
  The reduction and the post-processing of \<open>execute\<close>:
  \<^verbatim>\<open>
    contractsState = _.reduce(contractsPromiseResult, formatContractsState, []);
    let contractsToReturn = contractsState;
    contractsToReturn = _.map(contractsToReturn, flattenArgs);
    if (groupByNamespace) { ... contractsToReturn = contractsStateByNamespaceReduced; }
  \<close>
  \<open>flattenArgs\<close> rewrites the nodes in place, so the nodes that \<^verbatim>\<open>_.groupBy\<close> reads
  from \<open>contractsState\<close> are the flattened ones.
\<close>

definition reshape :: "collab \<Rightarrow> engine \<Rightarrow> addressCall list list \<Rightarrow> error + flatNode response" where
  "reshape w this contractsPromiseResult =
     (case foldE (\<lambda>contractConfig acc. formatContractsState acc contractConfig)
             contractsPromiseResult [] of
        Inl e \<Rightarrow> Inl e
      | Inr contractsState \<Rightarrow>
          (case mapE (flattenArgs (simplifyResponse this)) contractsState of
             Inl e \<Rightarrow> Inl e
           | Inr contractsToReturn \<Rightarrow>
               (if groupByNamespace this
                then Inr (Namespaced
                            (groupContractsByNamespace (flatNamespaceKey w) contractsToReturn))
                else Inr (Tree contractsToReturn))))"

text \<open>
  \<open>execute(contractsBatch, callOptions)\<close>. After the block list is built, the ABIs of the
  address groups are cached through the store: the loop is that of \<^verbatim>\<open>batchCall.js\<close>
  with \<^verbatim>\<open>store.addAbiToCache\<close> for \<^verbatim>\<open>this.addAbiToCache\<close>, and as
  \<open>store_addAbiToCache\<close> is \<open>addAbiToCache\<close> it is \<open>addAbisAll\<close>; an error there
  rejects before the batch is created. \<^verbatim>\<open>contractsBatch.map(addContractToBatch...)\<close>
  expands every group synchronously, then \<^verbatim>\<open>batch.execute()\<close> runs, then the promises
  are awaited. A rejected promise rejects \<open>execute\<close>, while the continuations of the
  other promises still run, so all marks reach \<open>readContracts\<close>. The statistics line is
  printed when the end of the function is reached. \<open>None\<close>: the block loop does not end.
\<close>

definition execute ::
  "collab \<Rightarrow> engine \<Rightarrow> contractGroup list \<Rightarrow> callOptions option \<Rightarrow> flatNode execution option" where
  "execute w this contractsBatch callOptions' =
     (let blockHeight = blockOption (case callOptions' of None \<Rightarrow> None | Some opts \<Rightarrow> o_blockHeight opts);
          blockResolution =
            blockOption (case callOptions' of None \<Rightarrow> None | Some opts \<Rightarrow> o_blockResolution opts);
          currentBlockNumber = getBlockNumber w
      in case buildBlocks currentBlockNumber blockHeight blockResolution of
           None \<Rightarrow> None
         | Some blocks \<Rightarrow>
             Some (case addAbisAll w contractsBatch this of
                (Some e, this') \<Rightarrow>
                  \<lparr>result = Inl e, batchExecuted = False, added = [], console = [], after = this'\<rparr>
              | (None, this') \<Rightarrow>
                  (let contractsPromises = map (addContractToBatch w this' blocks) contractsBatch;
                       eff = allEffects (map snd contractsPromises);
                       res = (case promiseAll (map fst contractsPromises) of
                                Inl e \<Rightarrow> Inl e
                              | Inr contractsPromiseResult \<Rightarrow> reshape w this' contractsPromiseResult)
                   in \<lparr>result = res,
                       batchExecuted = True,
                       added = calls eff,
                       console = logs eff @
                         (if logging this' \<and> \<not> isl res then [Statistics (length (calls eff))] else []),
                       after = this'\<lparr>readContracts := readContracts this' \<union> set (marks eff)\<rparr>\<rparr>)))"

subsection \<open>A transport without error reports\<close>

text \<open>
  For comparison only: the same collaborators, except that every callback reports no
  error (with the same data); and the console line that \<^verbatim>\<open>returnResponse\<close> prints for
  an error.
\<close>

definition withoutErrors :: "collab \<Rightarrow> collab" where
  "withoutErrors w =
     w\<lparr>request := (\<lambda>c. case request w c of
                           RequestThrows msg \<Rightarrow> RequestThrows msg
                         | Callback err data \<Rightarrow> Callback None data)\<rparr>"

fun isMethodCallFailed :: "logLine \<Rightarrow> bool" where
  "isMethodCallFailed (MethodCallFailed address name) = True"
| "isMethodCallFailed MethodErr = False"
| "isMethodCallFailed (Statistics n) = False"

text \<open>The effects of a part of the expansion, without the console lines for call errors.\<close>

definition quiet :: "effects \<Rightarrow> effects" where
  "quiet e = e\<lparr>logs := filter (\<lambda>l. \<not> isMethodCallFailed l) (logs e)\<rparr>"

section \<open>execute (batchCall.js)\<close>

text \<open>What \<^verbatim>\<open>addMethodToBatch\<close> of \<^verbatim>\<open>batchCall.js\<close> resolves with:
  \<^verbatim>\<open>{ method, value, input, args }\<close>.\<close>

record batchCall_methodResult =
  br_method :: string
  br_value :: jsval
  br_input :: "string option"
  br_args :: "jsval list option"

record batchCall_addressCall =
  ba_address :: string
  ba_namespace :: string
  ba_state :: "batchCall_methodResult option list"

text \<open>
  \<^verbatim>\<open>
    new Promise((methodResolve, methodReject) => {
      const { name, args } = method;
      const methodExists = _.get(contract.methods, name);
      if (!methodExists) { return methodResolve(); }
      if (args) { methodCall = contract.methods[name](...args).call; }
      else { methodCall = contract.methods[name]().call; }
      numberOfMethods += 1;
      const returnResponse = (err, data) => {
        if (err) { methodReject(err); }
        else {
          const abiMethod = _.find(abi, { name });
          const input = args && web3.eth.abi.encodeFunctionCall(abiMethod, args);
          methodResolve({ method: method.name, value: data, input, args });
        }
      };
      if (blockNumber) { req = methodCall.request(blockNumber, returnResponse); }
      else { req = methodCall.request(returnResponse); }
      batch.add(req);
    });
  \<close>
  An exception in the executor rejects the promise. The arguments are passed as they were
  supplied.
\<close>

definition batchCall_addMethodToBatch ::
  "collab \<Rightarrow> int option \<Rightarrow> abi option \<Rightarrow> string \<Rightarrow> methodSpec
     \<Rightarrow> (error + batchCall_methodResult option) \<times> call list" where
  "batchCall_addMethodToBatch w blockNumber abi address method =
     (let name = m_name method;
          args = m_args method;
          methodExists = contractMethods w abi address name
      in if \<not> methodExists then (Inr None, [])
         else
           (let req = \<lparr>call_address = address, call_name = name,
                       call_args = (case args of None \<Rightarrow> [] | Some xs \<Rightarrow> xs),
                       call_block = (case blockNumber of
                                       None \<Rightarrow> None
                                     | Some n \<Rightarrow> if n \<noteq> 0 then Some n else None)\<rparr>
            in case request w req of
                 RequestThrows msg \<Rightarrow> (Inl (TransportError msg), [])
               | Callback (Some msg) data \<Rightarrow> (Inl (TransportError msg), [req])
               | Callback None data \<Rightarrow>
                   (let abiMethod = findAbiMethod abi name;
                        input = map_option (\<lambda>xs. encodeFunctionCall w abiMethod xs) args
                    in (Inr (Some \<lparr>br_method = name, br_value = data,
                                    br_input = input, br_args = args\<rparr>),
                        [req]))))"

definition batchCall_addAddressToBatch ::
  "collab \<Rightarrow> engine \<Rightarrow> int option \<Rightarrow> methodSpec list \<Rightarrow> bool \<Rightarrow> string \<Rightarrow> item
     \<Rightarrow> (error + batchCall_addressCall) \<times> call list" where
  "batchCall_addAddressToBatch w this blockNumber readMethods allReadMethods namespace item' =
     (let (address, abi) =
            (case item' of
               ContractItem c \<Rightarrow> (c_address c, Some (c_jsonInterface c))
             | AddressItem a \<Rightarrow> (a, getAbiFromCache this a));
          allMethods = readMethods @
            (if allReadMethods then map formatField (getReadableAbiFields this address) else []);
          methodsPromises = map (batchCall_addMethodToBatch w blockNumber abi address) allMethods
      in (case promiseAll (map fst methodsPromises) of
            Inl e \<Rightarrow> Inl e
          | Inr methodsState \<Rightarrow>
              Inr \<lparr>ba_address = address, ba_namespace = namespace, ba_state = methodsState\<rparr>,
          concat (map snd methodsPromises)))"

definition batchCall_addContractToBatch ::
  "collab \<Rightarrow> engine \<Rightarrow> int option \<Rightarrow> contractGroup
     \<Rightarrow> (error + batchCall_addressCall list) \<times> call list" where
  "batchCall_addContractToBatch w this blockNumber contractConfig =
     (case objectToIterateOver contractConfig of
        None \<Rightarrow> (Inl TypeError, [])
      | Some items \<Rightarrow>
          (let addressPromises =
                 map (batchCall_addAddressToBatch w this blockNumber (readMethodsOf contractConfig)
                        (g_allReadMethods contractConfig) (namespaceOf contractConfig)) items
           in (promiseAll (map fst addressPromises), concat (map snd addressPromises))))"

definition batchCall_addMethodResults ::
  "string \<Rightarrow> string \<Rightarrow> batchCall_methodResult option \<Rightarrow> node list \<Rightarrow> error + node list" where
  "batchCall_addMethodResults address namespace result' acc =
     (case result' of
        None \<Rightarrow> Inr acc
      | Some r \<Rightarrow>
          mergeMethodArg address namespace (br_method r) (br_input r)
            \<lparr>b_value = Some (br_value r), b_values = None, b_input = br_input r, b_args = br_args r\<rparr>
            acc)"

definition batchCall_addAddressCalls :: "batchCall_addressCall \<Rightarrow> node list \<Rightarrow> error + node list" where
  "batchCall_addAddressCalls addressCall' acc =
     foldE (batchCall_addMethodResults (ba_address addressCall') (ba_namespace addressCall'))
       (ba_state addressCall') acc"

definition batchCall_formatContractsState ::
  "node list \<Rightarrow> batchCall_addressCall list \<Rightarrow> error + node list" where
  "batchCall_formatContractsState acc contractConfig =
     foldE batchCall_addAddressCalls contractConfig acc"

text \<open>
  \<open>execute(contractsBatch, blockNumber)\<close> of \<^verbatim>\<open>batchCall.js\<close>. The ABIs are cached
  first, outside the \<^verbatim>\<open>try\<close>. The promises are awaited and reduced inside it:
  \<^verbatim>\<open>
    try {
      const contractsPromiseResult = await Promise.all(contractsPromises);
      contractsState = _.reduce(contractsPromiseResult, formatContractsState, []);
    } catch (err) {
      return { error: err.message };
    }
  \<close>
  so a rejected call makes \<open>execute\<close> return the error object at once, before the cache
  is cleared and before the statistics line. When several calls fail, the first in the
  order of the calls is taken.
\<close>

definition batchCall_execute ::
  "collab \<Rightarrow> engine \<Rightarrow> contractGroup list \<Rightarrow> int option \<Rightarrow> node execution" where
  "batchCall_execute w this contractsBatch blockNumber =
     (case addAbisAll w contractsBatch this of
        (Some e, this') \<Rightarrow>
          \<lparr>result = Inl e, batchExecuted = False, added = [], console = [], after = this'\<rparr>
      | (None, this') \<Rightarrow>
          (let contractsPromises =
                 map (batchCall_addContractToBatch w this' blockNumber) contractsBatch;
               added' = concat (map snd contractsPromises);
               contractsState =
                 (case promiseAll (map fst contractsPromises) of
                    Inl e \<Rightarrow> Inl e
                  | Inr contractsPromiseResult \<Rightarrow>
                      foldE (\<lambda>contractConfig acc. batchCall_formatContractsState acc contractConfig)
                        contractsPromiseResult [])
           in case contractsState of
                Inl err \<Rightarrow>
                  \<lparr>result = Inr (ErrorObject err), batchExecuted = True, added = added',
                   console = [], after = this'\<rparr>
              | Inr contractsState' \<Rightarrow>
                  \<lparr>result = Inr (if groupByNamespace this'
                                  then Namespaced (groupContractsByNamespace namespaceKey contractsState')
                                  else Tree contractsState'),
                   batchExecuted = True,
                   added = added',
                   console = (if logging this' then [Statistics (length added')] else []),
                   after = (if clearMemoryAfterExecution this'
                            then this'\<lparr>abiHashByAddress := Map.empty, abiByHash := Map.empty\<rparr>
                            else this')\<rparr>))"

section \<open>Example inputs\<close>

text \<open>
  A token ABI, a collaborator whose contract handle offers exactly the named
  descriptors of its ABI and whose transport answers every call with the same string,
  and a fresh engine as the constructor leaves it when no option is given.
\<close>

definition ex_abi :: abi where
  "ex_abi =
     [\<lparr>f_name = Some ''totalSupply'', f_inputs = [], f_outputs = [''uint256''],
       f_stateMutability = ''view'', f_constant = True\<rparr>,
      \<lparr>f_name = Some ''balanceOf'', f_inputs = [''address''], f_outputs = [''uint256''],
       f_stateMutability = ''view'', f_constant = True\<rparr>,
      \<lparr>f_name = Some ''paused'', f_inputs = [], f_outputs = [''bool''],
       f_stateMutability = ''view'', f_constant = False\<rparr>]"

definition ex_answer :: "call \<Rightarrow> outcome" where
  "ex_answer c =
     (if call_name c = ''paused'' then Callback None (JBool False)
      else Callback None (JStr ''1000''))"

definition ex_web3 :: collab where
  "ex_web3 =
     \<lparr>getBlockNumber = 100,
      contractMethods = (\<lambda>abi address name. findAbiMethod abi name \<noteq> None),
      encodeFunctionCall = (\<lambda>abiMethod args. ''0x70a08231''),
      request = ex_answer,
      md5 = (\<lambda>abi. concat (map (\<lambda>field. case f_name field of None \<Rightarrow> ''-'' | Some n \<Rightarrow> n) abi)),
      fetch = (\<lambda>address key. None),
      jsString = (\<lambda>v. case v of JStr s \<Rightarrow> s | _ \<Rightarrow> ''[object Object]'')\<rparr>"

definition ex_engine :: engine where
  "ex_engine =
     \<lparr>etherscanApiKey = None,
      abiHashByAddress = Map.empty,
      abiByHash = Map.empty,
      groupByNamespace = False,
      clearMemoryAfterExecution = False,
      logging = False,
      simplifyResponse = False,
      readContracts = {}\<rparr>"

definition ex_group :: "string list \<Rightarrow> abi option \<Rightarrow> methodSpec list \<Rightarrow> contractGroup" where
  "ex_group addresses abi readMethods =
     \<lparr>g_addresses = Some addresses, g_contracts = None, g_namespace = None,
      g_readMethods = Some readMethods, g_allReadMethods = False, g_abi = abi\<rparr>"

text \<open>A transport that reports an error for every call of \<^verbatim>\<open>paused\<close>.\<close>

definition ex_failing :: collab where
  "ex_failing =
     ex_web3\<lparr>request := (\<lambda>c. if call_name c = ''paused''
                               then Callback (Some ''timeout'') JUndefined
                               else Callback None (JStr ''1000''))\<rparr>"

definition ex_method :: "string \<Rightarrow> jsval list option \<Rightarrow> methodSpec" where
  "ex_method name args = \<lparr>m_name = name, m_args = args, m_constant = False\<rparr>"



section \<open>Evaluation rules and effects\<close>

lemmas ex_defs = ex_web3_def ex_engine_def ex_group_def ex_abi_def ex_method_def ex_answer_def ex_failing_def

lemmas cache_defs = addAbis_def addAbiToCache_def cacheAbi_def getAbiFromCache_def
  getReadableAbiFields_def getReadableFields_def fetchAbi_def

lemmas batchCall_defs = batchCall_execute_def batchCall_addContractToBatch_def
  batchCall_addAddressToBatch_def batchCall_addMethodToBatch_def batchCall_formatContractsState_def
  batchCall_addAddressCalls_def batchCall_addMethodResults_def mergeMethodArg_def
  objectToIterateOver_def readMethodsOf_def namespaceOf_def findAbiMethod_def
  groupContractsByNamespace_def groupBy_def groupByObject_def ownProperties_def isArrayIndex_def
  decimalValue_def inheritedProperty_def namespaceKey_def removeNamespaceKey_def omitNamespace_def

lemma allEffects_Nil: "allEffects [] = noEffects"
  by (simp add: allEffects_def)

lemma allEffects_Cons: "allEffects (e # es) = seqEffects e (allEffects es)"
  by (simp add: allEffects_def)

lemma seqEffects_sel:
  "calls (seqEffects e1 e2) = calls e1 @ calls e2"
  "logs (seqEffects e1 e2) = logs e1 @ logs e2"
  "marks (seqEffects e1 e2) = marks e1 @ marks e2"
  by (simp_all add: seqEffects_def)

lemma noEffects_sel:
  "calls noEffects = []" "logs noEffects = []" "marks noEffects = []"
  by (simp_all add: noEffects_def)

lemma allEffects_sel:
  "calls (allEffects es) = concat (map calls es)"
  "logs (allEffects es) = concat (map logs es)"
  "marks (allEffects es) = concat (map marks es)"
  by (induction es) (simp_all add: allEffects_Nil allEffects_Cons seqEffects_sel noEffects_sel)

lemmas expand_defs = execute_def blockOption_def buildBlocks_def blocksLoop.simps
  addContractToBatch_def addAddressToBatch_def addMethodToBatch_def addBlockToBatch_def
  store_getAbiFromCache_def store_getReadableAbiFields_def formatField_def
  filterOutConstants_def objectToIterateOver_def readMethodsOf_def namespaceOf_def
  findAbiMethod_def allEffects_def seqEffects_def noEffects_def

lemmas reshape_defs = reshape_def formatContractsState_def addAddressCalls_def
  addMethodResults_def mergeMethodArg_def flattenArgs_def flattenArg_def flattenVal_def
  simplifyOnlyArg_def groupContractsByNamespace_def groupBy_def groupByObject_def
  ownProperties_def isArrayIndex_def decimalValue_def inheritedProperty_def flatNamespaceKey_def
  removeNamespaceKey_def omitNamespace_def

section \<open>Properties of the ABI cache\<close>

lemma addAbiToCache_provided:
  "addAbiToCache w address (Some abi) this = Inr (cacheAbi w address abi this)"
  by (simp add: addAbiToCache_def)

lemma cacheAbi_fields:
  "abiByHash (cacheAbi w address abi this) = (abiByHash this)(md5 w abi \<mapsto> abi)"
  "abiHashByAddress (cacheAbi w address abi this) = (abiHashByAddress this)(address \<mapsto> md5 w abi)"
  "etherscanApiKey (cacheAbi w address abi this) = etherscanApiKey this"
  "readContracts (cacheAbi w address abi this) = readContracts this"
  by (simp_all add: cacheAbi_def Let_def)

lemma addAbisLoop_provided_dom:
  "addAbisLoop w (Some abi) addresses this = (e, this') \<Longrightarrow>
     e = None \<and> dom (abiByHash this') \<subseteq> insert (md5 w abi) (dom (abiByHash this))"
proof (induction addresses arbitrary: this)
  case Nil
  then show ?case by auto
next
  case (Cons a as)
  from Cons.prems have "addAbisLoop w (Some abi) as (cacheAbi w a abi this) = (e, this')"
    by (simp add: addAbiToCache_provided)
  from Cons.IH[OF this] show ?case by (auto simp: cacheAbi_fields)
qed

text \<open>
  C5. Caching the same ABI for an address and then for a second address (the same one or
  another) adds the one entry under the ABI's hash to the hash dictionary and maps both
  addresses to that hash; from an empty cache the hash dictionary then has exactly one
  entry. Caching one ABI for a whole list of addresses adds no entry but this one.
\<close>

theorem C5_cache_put_dedup:
  "\<exists>s1 s2. addAbiToCache w a1 (Some abi) this = Inr s1
         \<and> addAbiToCache w a2 (Some abi) s1 = Inr s2
         \<and> dom (abiByHash s2) = insert (md5 w abi) (dom (abiByHash this))
         \<and> abiByHash s2 (md5 w abi) = Some abi
         \<and> abiHashByAddress s2 a1 = Some (md5 w abi)
         \<and> abiHashByAddress s2 a2 = Some (md5 w abi)
         \<and> (abiByHash this = Map.empty \<longrightarrow> card (dom (abiByHash s2)) = 1)
         \<and> dom (abiByHash (snd (addAbisLoop w (Some abi) addresses this)))
              \<subseteq> insert (md5 w abi) (dom (abiByHash this))"
proof -
  let ?s1 = "cacheAbi w a1 abi this"
  let ?s2 = "cacheAbi w a2 abi ?s1"
  have loop: "dom (abiByHash (snd (addAbisLoop w (Some abi) addresses this)))
                \<subseteq> insert (md5 w abi) (dom (abiByHash this))"
    using addAbisLoop_provided_dom[of w abi addresses this] by (metis prod.collapse)
  have "addAbiToCache w a1 (Some abi) this = Inr ?s1"
    by (rule addAbiToCache_provided)
  moreover have "addAbiToCache w a2 (Some abi) ?s1 = Inr ?s2"
    by (rule addAbiToCache_provided)
  moreover have "dom (abiByHash ?s2) = insert (md5 w abi) (dom (abiByHash this))"
    by (simp add: cacheAbi_fields)
  moreover have "abiByHash ?s2 (md5 w abi) = Some abi"
    by (simp add: cacheAbi_fields)
  moreover have "abiHashByAddress ?s2 a1 = Some (md5 w abi)"
    by (simp add: cacheAbi_fields)
  moreover have "abiHashByAddress ?s2 a2 = Some (md5 w abi)"
    by (simp add: cacheAbi_fields)
  moreover have "abiByHash this = Map.empty \<longrightarrow> card (dom (abiByHash ?s2)) = 1"
    by (simp add: cacheAbi_fields)
  ultimately show ?thesis using loop by blast
qed

theorem C5_cache_put_dedup_witness:
  "\<exists>s1 s2. addAbiToCache ex_web3 ''0xA'' (Some ex_abi) ex_engine = Inr s1
         \<and> addAbiToCache ex_web3 ''0xB'' (Some ex_abi) s1 = Inr s2
         \<and> abiByHash ex_engine = Map.empty
         \<and> card (dom (abiByHash s2)) = 1
         \<and> abiHashByAddress s2 ''0xA'' = abiHashByAddress s2 ''0xB''"
proof -
  have e: "abiByHash ex_engine = Map.empty" by (simp add: ex_engine_def)
  from C5_cache_put_dedup[of ex_web3 "''0xA''" ex_abi ex_engine "''0xB''" "[]"] e
  show ?thesis by auto
qed

lemma addAbiToCache_apiKey:
  "addAbiToCache w address abi this = Inr this' \<Longrightarrow> etherscanApiKey this' = etherscanApiKey this"
  by (auto simp: addAbiToCache_def Let_def cacheAbi_fields split: option.splits sum.splits if_splits)

lemma addAbisLoop_apiKey:
  "addAbisLoop w abi addresses this = (e, this') \<Longrightarrow> etherscanApiKey this' = etherscanApiKey this"
proof (induction addresses arbitrary: this)
  case Nil
  then show ?case by simp
next
  case (Cons a as)
  then show ?case
    by (auto split: sum.splits dest: addAbiToCache_apiKey)
qed

lemma addAbisAll_apiKey:
  "addAbisAll w contractsBatch this = (e, this') \<Longrightarrow> etherscanApiKey this' = etherscanApiKey this"
proof (induction contractsBatch arbitrary: this)
  case Nil
  then show ?case by simp
next
  case (Cons g gs)
  then show ?case
    by (auto simp: addAbis_def split: option.splits prod.splits dest: addAbisLoop_apiKey)
qed

lemma addAbisAll_append:
  "addAbisAll w pre this = (None, this1) \<Longrightarrow>
     addAbisAll w (pre @ rest) this = addAbisAll w rest this1"
proof (induction pre arbitrary: this)
  case Nil
  then show ?case by simp
next
  case (Cons g gs)
  then show ?case
    by (auto split: option.splits prod.splits)
qed

lemma addAbisLoop_no_credential:
  assumes "etherscanApiKey this = None" "a \<in> set addresses" "getAbiFromCache this a = None"
  shows "addAbisLoop w None addresses this = (Some NoEtherscanApiKey, this)"
  using assms
proof (induction addresses)
  case Nil
  then show ?case by simp
next
  case (Cons x xs)
  show ?case
  proof (cases "getAbiFromCache this x = None")
    case True
    then show ?thesis using Cons.prems(1)
      by (simp add: addAbiToCache_def fetchAbi_def)
  next
    case False
    then have "x \<noteq> a" using Cons.prems(3) by auto
    then have "a \<in> set xs" using Cons.prems(2) by simp
    from Cons.IH[OF Cons.prems(1) this Cons.prems(3)] False
    show ?thesis by (auto simp: addAbiToCache_def)
  qed
qed

lemma addAbisAll_append_cases:
  "addAbisAll w (pre @ rest) this =
     (case addAbisAll w pre this of
        (Some e, this') \<Rightarrow> (Some e, this')
      | (None, this') \<Rightarrow> addAbisAll w rest this')"
  by (induction pre arbitrary: this) (auto split: option.splits prod.splits)

lemma addAbisLoop_no_key_errors:
  "etherscanApiKey this = None \<Longrightarrow>
     fst (addAbisLoop w abi addresses this) = None \<or>
     fst (addAbisLoop w abi addresses this) = Some NoEtherscanApiKey"
proof (induction addresses arbitrary: this)
  case Nil
  then show ?case by simp
next
  case (Cons a as)
  show ?case
  proof (cases "addAbiToCache w a abi this")
    case (Inl e)
    then have "e = NoEtherscanApiKey" using Cons.prems
      by (auto simp: addAbiToCache_def fetchAbi_def Let_def split: option.splits if_splits)
    with Inl show ?thesis by simp
  next
    case (Inr this')
    then have "etherscanApiKey this' = None"
      using addAbiToCache_apiKey[OF Inr] Cons.prems by simp
    from Cons.IH[OF this] Inr show ?thesis by simp
  qed
qed

lemma addAbisAll_no_key_errors:
  assumes "etherscanApiKey this = None"
      and "\<forall>g \<in> set gs. g_contracts g \<noteq> None \<or> g_addresses g \<noteq> None"
  shows "fst (addAbisAll w gs this) = None \<or> fst (addAbisAll w gs this) = Some NoEtherscanApiKey"
  using assms
proof (induction gs arbitrary: this)
  case Nil
  then show ?case by simp
next
  case (Cons g gs)
  show ?case
  proof (cases "g_contracts g")
    case (Some cs)
    then show ?thesis using Cons by simp
  next
    case None
    then obtain addresses where a: "g_addresses g = Some addresses" using Cons.prems(2) by auto
    obtain e this' where l: "addAbisLoop w (g_abi g) addresses this = (e, this')"
      by (cases "addAbisLoop w (g_abi g) addresses this") auto
    have k: "etherscanApiKey this' = None"
      using addAbisLoop_apiKey[OF l] Cons.prems(1) by simp
    have e: "e = None \<or> e = Some NoEtherscanApiKey"
      using addAbisLoop_no_key_errors[OF Cons.prems(1), of w "g_abi g" addresses] l by simp
    show ?thesis
    proof (cases e)
      case None
      then show ?thesis using Cons.IH[OF k] Cons.prems(2) \<open>g_contracts g = None\<close> a l
        by (simp add: addAbis_def)
    next
      case (Some err)
      then show ?thesis using e \<open>g_contracts g = None\<close> a l by (simp add: addAbis_def)
    qed
  qed
qed


text \<open>
  C3. In \<^verbatim>\<open>batchCall.js\<close>, when no API key is configured and the batch has an address
  group without an ABI of its own, one of whose addresses has no cached ABI when the
  group is reached (the groups before it each naming addresses or contracts),
  \<open>execute\<close> rejects with the error of the missing API key; the batch is not
  executed and no request has been added to it.
\<close>

theorem C3_missing_credential:
  assumes "etherscanApiKey this = None"
    and "\<forall>g' \<in> set pre. g_contracts g' \<noteq> None \<or> g_addresses g' \<noteq> None"
    and "g_contracts g = None" and "g_abi g = None"
    and "g_addresses g = Some addresses" and "a \<in> set addresses"
    and "\<forall>this1. addAbisAll w pre this = (None, this1) \<longrightarrow> getAbiFromCache this1 a = None"
  shows "result (batchCall_execute w this (pre @ g # post) blockNumber) = Inl NoEtherscanApiKey
       \<and> \<not> batchExecuted (batchCall_execute w this (pre @ g # post) blockNumber)
       \<and> added (batchCall_execute w this (pre @ g # post) blockNumber) = []"
proof -
  obtain e this1 where p: "addAbisAll w pre this = (e, this1)"
    by (cases "addAbisAll w pre this") auto
  have "fst (addAbisAll w (pre @ g # post) this) = Some NoEtherscanApiKey"
  proof (cases e)
    case None
    have k1: "etherscanApiKey this1 = None"
      using addAbisAll_apiKey[OF p] assms(1) by simp
    have u: "getAbiFromCache this1 a = None" using assms(7) p None by simp
    have "addAbisLoop w None addresses this1 = (Some NoEtherscanApiKey, this1)"
      using addAbisLoop_no_credential[OF k1 assms(6) u] .
    then have "addAbisAll w (g # post) this1 = (Some NoEtherscanApiKey, this1)"
      using assms(3,4,5) by (simp add: addAbis_def)
    then show ?thesis using p None by (simp add: addAbisAll_append_cases)
  next
    case (Some err)
    then have "err = NoEtherscanApiKey"
      using addAbisAll_no_key_errors[OF assms(1,2), of w] p by simp
    then show ?thesis using p Some by (simp add: addAbisAll_append_cases)
  qed
  then show ?thesis
    by (cases "addAbisAll w (pre @ g # post) this") (simp add: batchCall_execute_def)
qed


lemma ex_pre: "addAbisAll ex_web3 [ex_group [''0xB''] (Some ex_abi) []] ex_engine
      = (None, cacheAbi ex_web3 ''0xB'' ex_abi ex_engine)"
  by (simp add: ex_group_def addAbis_def addAbiToCache_provided)

lemma ex_uncached: "getAbiFromCache (cacheAbi ex_web3 ''0xB'' ex_abi ex_engine) ''0xA'' = None"
  by (simp add: getAbiFromCache_def cacheAbi_fields ex_engine_def ex_web3_def ex_abi_def)

theorem C3_missing_credential_witness:
  "etherscanApiKey ex_engine = None
   \<and> addAbisAll ex_web3 [ex_group [''0xB''] (Some ex_abi) []] ex_engine
       = (None, cacheAbi ex_web3 ''0xB'' ex_abi ex_engine)
   \<and> g_contracts (ex_group [''0xA''] None []) = None
   \<and> g_abi (ex_group [''0xA''] None []) = None
   \<and> g_addresses (ex_group [''0xA''] None []) = Some [''0xA'']
   \<and> getAbiFromCache (cacheAbi ex_web3 ''0xB'' ex_abi ex_engine) ''0xA'' = None
   \<and> result (batchCall_execute ex_web3 ex_engine
               ([ex_group [''0xB''] (Some ex_abi) []] @ ex_group [''0xA''] None [] # []) None)
       = Inl NoEtherscanApiKey"
proof -
  have k: "etherscanApiKey ex_engine = None" by (simp add: ex_engine_def)
  have w: "\<forall>g' \<in> set [ex_group [''0xB''] (Some ex_abi) []].
             g_contracts g' \<noteq> None \<or> g_addresses g' \<noteq> None"
    by (simp add: ex_group_def)
  have g1: "g_contracts (ex_group [''0xA''] None []) = None" by (simp add: ex_group_def)
  have g2: "g_abi (ex_group [''0xA''] None []) = None" by (simp add: ex_group_def)
  have g3: "g_addresses (ex_group [''0xA''] None []) = Some [''0xA'']" by (simp add: ex_group_def)
  have m: "''0xA'' \<in> set [''0xA'']" by simp
  have u: "\<forall>this1. addAbisAll ex_web3 [ex_group [''0xB''] (Some ex_abi) []] ex_engine = (None, this1)
             \<longrightarrow> getAbiFromCache this1 ''0xA'' = None"
    using ex_pre ex_uncached by simp
  from C3_missing_credential[OF k w g1 g2 g3 m u, of "[]" None]
  show ?thesis using k ex_pre g1 g2 g3 ex_uncached by simp
qed

section \<open>Properties of block sampling\<close>
lemma mult_le_iff_le_div:
  assumes "0 < (r::int)"
  shows "(k * r \<le> m) = (k \<le> m div r)"
proof
  assume "k * r \<le> m"
  then have "(k * r) div r \<le> m div r" using assms by (rule zdiv_mono1)
  then show "k \<le> m div r" using assms by simp
next
  assume "k \<le> m div r"
  then have "k * r \<le> (m div r) * r" using assms by (simp add: mult_right_mono)
  also have "\<dots> \<le> m" using assms
    by (metis div_mult_mod_eq pos_mod_sign le_add_same_cancel1)
  finally show "k * r \<le> m" .
qed

lemma iter_lt_iff:
  assumes "1 \<le> (r::int)"
  shows "(int i * r < h) = (i < nat ((h + r - 1) div r))"
proof -
  have r0: "0 < r" using assms by simp
  have "(int i * r < h) = (int i * r \<le> h - 1)" by auto
  also have "\<dots> = (int i \<le> (h - 1) div r)"
    using r0 by (rule mult_le_iff_le_div)
  also have "\<dots> = (int i < (h - 1) div r + 1)" by auto
  also have "(h - 1) div r + 1 = (h + r - 1) div r"
    using r0 by (metis add.commute add_diff_eq div_add_self1 less_irrefl)
  also have "(int i < (h + r - 1) div r) = (i < nat ((h + r - 1) div r))" by auto
  finally show ?thesis .
qed

lemma blocksLoop_steps:
  assumes "1 \<le> r"
  shows "blocksLoop cur h r (int i * r) acc =
         Some (acc @ map (\<lambda>k. cur - int k * r) [i..<nat ((h + r - 1) div r)])"
  using assms
proof (induction "nat ((h + r - 1) div r) - i" arbitrary: i acc)
  case 0
  then have "\<not> int i * r < h" by (simp add: iter_lt_iff)
  then show ?case using 0 by (subst blocksLoop.simps) simp
next
  case (Suc n)
  then have lt: "i < nat ((h + r - 1) div r)" by simp
  then have c: "int i * r < h" using Suc.prems by (simp add: iter_lt_iff)
  have n: "n = nat ((h + r - 1) div r) - Suc i" using Suc.hyps(2) by simp
  have step: "int i * r + r = int (Suc i) * r" by (simp add: algebra_simps)
  have "blocksLoop cur h r (int i * r) acc =
        blocksLoop cur h r (int (Suc i) * r) (acc @ [cur - int i * r])"
    using c by (subst blocksLoop.simps) (simp only: step if_True)
  also have "\<dots> = Some ((acc @ [cur - int i * r]) @
                 map (\<lambda>k. cur - int k * r) [Suc i..<nat ((h + r - 1) div r)])"
    using Suc.hyps(1)[OF n Suc.prems] .
  also have "\<dots> = Some (acc @ map (\<lambda>k. cur - int k * r) [i..<nat ((h + r - 1) div r)])"
    using lt by (simp add: upt_conv_Cons)
  finally show ?case .
qed

lemma buildBlocks_closed:
  assumes "1 \<le> r"
  shows "buildBlocks cur h r =
         Some (rev (map (\<lambda>k. cur - int k * r) [0..<nat ((h + r - 1) div r)]))"
  using blocksLoop_steps[OF assms, of cur h 0 "[]"] by (simp add: buildBlocks_def)




section \<open>Properties of the expansion\<close>

lemma addBlockToBatch_calls:
  "calls (snd (addBlockToBatch w address methodCall name b)) =
     (if isCallback (request w (methodCall\<lparr>call_block := Some b\<rparr>))
      then [methodCall\<lparr>call_block := Some b\<rparr>] else [])"
  by (simp add: addBlockToBatch_def Let_def split: outcome.splits)

lemma concat_map_if_filter:
  "concat (map (\<lambda>b. if P b then [f b] else []) bs) = map f (filter P bs)"
  by (induction bs) simp_all

lemma addMethodToBatch_callable:
  assumes "contractMethods w abi address (m_name method)"
      and "findAbiMethod abi (m_name method) = Some field"
  shows "fst (addMethodToBatch w blocks abi address method) =
           Inr (Some \<lparr>r_address = address,
                      r_input = map_option (\<lambda>xs. encodeFunctionCall w (Some field)
                                   (take (length (f_inputs field)) (case m_args method of None \<Rightarrow> [] | Some xs \<Rightarrow> xs))) (m_args method),
                      r_method = m_name method,
                      r_values = map (\<lambda>b. fst (addBlockToBatch w address
                                   \<lparr>call_address = address, call_name = m_name method,
                                    call_args = take (length (f_inputs field)) (case m_args method of None \<Rightarrow> [] | Some xs \<Rightarrow> xs),
                                    call_block = None\<rparr> (m_name method) b)) blocks,
                      r_args = m_args method\<rparr>)"
    and "calls (snd (addMethodToBatch w blocks abi address method)) =
           map (\<lambda>b. \<lparr>call_address = address, call_name = m_name method,
                      call_args = take (length (f_inputs field)) (case m_args method of None \<Rightarrow> [] | Some xs \<Rightarrow> xs),
                      call_block = Some b\<rparr>)
               (filter (\<lambda>b. isCallback (request w
                      \<lparr>call_address = address, call_name = m_name method,
                       call_args = take (length (f_inputs field)) (case m_args method of None \<Rightarrow> [] | Some xs \<Rightarrow> xs),
                       call_block = Some b\<rparr>)) blocks)"
  using assms
  by (simp_all add: addMethodToBatch_def Let_def seqEffects_sel allEffects_sel comp_def
        addBlockToBatch_calls concat_map_if_filter)







text \<open>
  C8, as stated, fails for \<^verbatim>\<open>batchCall.js\<close>: there the arguments are passed to the contract
  method as supplied. \<open>balanceOf\<close> has one input in the ABI, and the request added to
  the batch carries both supplied arguments.
\<close>

theorem C8_counterexample:
  "added (batchCall_execute ex_web3 ex_engine
            [ex_group [''0xA''] (Some ex_abi)
               [ex_method ''balanceOf'' (Some [JStr ''0xC'', JStr ''extra''])]] None)
   = [\<lparr>call_address = ''0xA'', call_name = ''balanceOf'',
       call_args = [JStr ''0xC'', JStr ''extra''], call_block = None\<rparr>]
   \<and> map (\<lambda>field. length (f_inputs field)) (filter (\<lambda>field. f_name field = Some ''balanceOf'') ex_abi) = [1]"
  by (simp add: ex_defs cache_defs batchCall_defs Let_def)

text \<open>
  C8, amended. In the block-sampling variant, for a method of the callable surface whose
  descriptor is found in the ABI and whose supplied arguments are more than the
  descriptor's inputs: the method resolves with a result (no error), with one sample
  per block; every request added for it carries exactly the first arguments, as many as
  the descriptor has inputs, and one request is added per block whose request the
  transport builds; the encoded input is made of the truncated arguments, while the
  result keeps the arguments as supplied.
\<close>

theorem C8_arguments_truncated:
  assumes "contractMethods w abi address (m_name method)"
      and "findAbiMethod abi (m_name method) = Some field"
      and "m_args method = Some args"
      and "length (f_inputs field) < length args"
  shows "\<exists>r. fst (addMethodToBatch w blocks abi address method) = Inr (Some r)
           \<and> r_input r = Some (encodeFunctionCall w (Some field) (take (length (f_inputs field)) args))
           \<and> r_args r = Some args
           \<and> length (r_values r) = length blocks
           \<and> (\<forall>c \<in> set (calls (snd (addMethodToBatch w blocks abi address method))).
                 call_args c = take (length (f_inputs field)) args
               \<and> length (call_args c) = length (f_inputs field))
           \<and> map call_block (calls (snd (addMethodToBatch w blocks abi address method))) =
               map Some (filter (\<lambda>b. isCallback (request w
                    \<lparr>call_address = address, call_name = m_name method,
                     call_args = take (length (f_inputs field)) args, call_block = Some b\<rparr>)) blocks)"
  using addMethodToBatch_callable[OF assms(1,2), of blocks] assms(3,4)
  by (auto simp: comp_def)


theorem C8_arguments_truncated_witness:
  "contractMethods ex_web3 (Some ex_abi) ''0xA'' ''balanceOf''
   \<and> findAbiMethod (Some ex_abi) ''balanceOf'' = Some (ex_abi ! 1)
   \<and> length (f_inputs (ex_abi ! 1)) < length [JStr ''0xC'', JStr ''extra'']
   \<and> list_all (\<lambda>c. call_args c = [JStr ''0xC''])
         (calls (snd (addMethodToBatch ex_web3 [99, 100] (Some ex_abi) ''0xA''
                        (ex_method ''balanceOf'' (Some [JStr ''0xC'', JStr ''extra'']))))) 
   \<and> map call_block (calls (snd (addMethodToBatch ex_web3 [99, 100] (Some ex_abi) ''0xA''
                             (ex_method ''balanceOf'' (Some [JStr ''0xC'', JStr ''extra''])))))
       = [Some 99, Some 100]"
proof -
  have a: "contractMethods ex_web3 (Some ex_abi) ''0xA''
             (m_name (ex_method ''balanceOf'' (Some [JStr ''0xC'', JStr ''extra''])))"
    by (simp add: ex_defs findAbiMethod_def)
  have b: "findAbiMethod (Some ex_abi)
             (m_name (ex_method ''balanceOf'' (Some [JStr ''0xC'', JStr ''extra''])))
           = Some (ex_abi ! 1)"
    by (simp add: ex_defs findAbiMethod_def)
  have c: "m_args (ex_method ''balanceOf'' (Some [JStr ''0xC'', JStr ''extra'']))
           = Some [JStr ''0xC'', JStr ''extra'']"
    by (simp add: ex_defs)
  have d: "length (f_inputs (ex_abi ! 1)) < length [JStr ''0xC'', JStr ''extra'']"
    by (simp add: ex_defs)
  have n: "take (length (f_inputs (ex_abi ! 1))) [JStr ''0xC'', JStr ''extra''] = [JStr ''0xC'']"
    by (simp add: ex_defs)
  have r: "\<And>c. isCallback (request ex_web3 c)" by (simp add: ex_defs)
  have a': "contractMethods ex_web3 (Some ex_abi) ''0xA'' ''balanceOf''"
    using a by (simp add: ex_method_def)
  have b': "findAbiMethod (Some ex_abi) ''balanceOf'' = Some (ex_abi ! 1)"
    using b by (simp add: ex_method_def)
  from C8_arguments_truncated[OF a b c d, of "[99, 100]", unfolded n] a' b' d
  show ?thesis by (auto simp: r list_all_iff)
qed

section \<open>Block samples of a method entry\<close>





section \<open>Properties of the grouping by namespace\<close>


lemma firstKeys_set [simp]: "set (firstKeys ks) = set ks"
  by (simp add: firstKeys_def)

lemma firstKeys_distinct [simp]: "distinct (firstKeys ks)"
  by (simp add: firstKeys_def)








lemma objectKeys_mset: "mset (objectKeys ks) = mset ks"
  by (simp add: objectKeys_def)

lemma objectKeys_set [simp]: "set (objectKeys ks) = set ks"
  using objectKeys_mset[of ks] by (metis set_mset_mset)

lemma objectKeys_distinct [simp]: "distinct (objectKeys ks) = distinct ks"
  using objectKeys_mset[of ks] by (metis mset_eq_imp_distinct_iff)











lemma bucketKeys_set [simp]: "set (bucketKeys key t) = key ` set t"
  by (simp add: bucketKeys_def)

lemma bucketKeys_distinct [simp]: "distinct (bucketKeys key t)"
  by (simp add: bucketKeys_def)


subsection \<open>The option does not reach the expansion\<close>























section \<open>Properties of execute (block-sampling variant)\<close>

text \<open>
  With \<open>simplifyResponse\<close>, one address and one method without arguments, read at one
  block: a truthy value becomes the method's entry; without the option the entry stays
  an array with one bucket.
\<close>

lemma simplify_truthy_value:
  "map_option result
     (execute ex_web3 (ex_engine\<lparr>simplifyResponse := True\<rparr>)
        [ex_group [''0xA''] (Some ex_abi) [ex_method ''totalSupply'' None]] None)
   = Some (Inr (Tree [[(''address'', FlatText ''0xA''), (''namespace'', FlatText ''default''),
                       (''totalSupply'', FlatValue (JStr ''1000''))]]))"
  by (simp add: ex_defs cache_defs expand_defs reshape_defs Let_def)

lemma no_simplify_keeps_bucket:
  "map_option result
     (execute ex_web3 ex_engine
        [ex_group [''0xA''] (Some ex_abi) [ex_method ''paused'' None]] None)
   = Some (Inr (Tree [[(''address'', FlatText ''0xA''), (''namespace'', FlatText ''default''),
                       (''paused'', FlatBuckets [\<lparr>b_value = Some (JBool False), b_values = None, b_input = None, b_args = None\<rparr>])]]))"
  by (simp add: ex_defs cache_defs expand_defs reshape_defs Let_def)

text \<open>
  C7. With \<open>simplifyResponse\<close>, one address and the one method \<open>paused\<close> without
  arguments, whose value at the one block read is \<open>false\<close>: the method's entry is
  \<^verbatim>\<open>undefined\<close>, neither the value \<open>false\<close> nor the per-block values. The test
  \<^verbatim>\<open>if (value)\<close> takes the falsy value for a missing one, and the \<^verbatim>\<open>values\<close> it falls
  back to were deleted when the single sample was flattened.
\<close>

theorem C7_falsy_value_lost:
  "map_option result
     (execute ex_web3 (ex_engine\<lparr>simplifyResponse := True\<rparr>)
        [ex_group [''0xA''] (Some ex_abi) [ex_method ''paused'' None]] None)
   = Some (Inr (Tree [[(''address'', FlatText ''0xA''), (''namespace'', FlatText ''default''),
                       (''paused'', FlatValue JUndefined)]]))"
  by (simp add: ex_defs cache_defs expand_defs reshape_defs Let_def)










lemma addContractToBatch_items:
  "\<not> isl (fst (addContractToBatch w this blocks g)) \<Longrightarrow> \<exists>items. objectToIterateOver g = Some items"
  by (auto simp: addContractToBatch_def split: option.splits)


lemma execute_returns:
  assumes "1 \<le> blockOption (case opts of None \<Rightarrow> None | Some os \<Rightarrow> o_blockResolution os)"
  shows "\<exists>x. execute w this contractsBatch opts = Some x"
  using buildBlocks_closed[OF assms] by (simp add: execute_def Let_def)



text \<open>
  Within one batch on a fresh engine also an entry flagged constant in the request is
  read by both groups: the marks are set after the whole batch has been expanded.
\<close>

lemma flagged_constant_reread_in_batch:
  "map_option added
     (execute ex_web3 ex_engine
        [ex_group [''0xA''] (Some ex_abi) [\<lparr>m_name = ''totalSupply'', m_args = None, m_constant = True\<rparr>],
         ex_group [''0xA''] (Some ex_abi) [\<lparr>m_name = ''totalSupply'', m_args = None, m_constant = True\<rparr>]] None)
   = Some [\<lparr>call_address = ''0xA'', call_name = ''totalSupply'', call_args = [], call_block = Some 100\<rparr>,
           \<lparr>call_address = ''0xA'', call_name = ''totalSupply'', call_args = [], call_block = Some 100\<rparr>]"
  by (simp add: ex_defs cache_defs expand_defs reshape_defs Let_def)








subsection \<open>Errors of single calls\<close>

lemma withoutErrors_sel:
  "getBlockNumber (withoutErrors w) = getBlockNumber w"
  "contractMethods (withoutErrors w) = contractMethods w"
  "encodeFunctionCall (withoutErrors w) = encodeFunctionCall w"
  "md5 (withoutErrors w) = md5 w"
  "fetch (withoutErrors w) = fetch w"
  "jsString (withoutErrors w) = jsString w"
  by (simp_all add: withoutErrors_def)

lemma quiet_simps:
  "quiet noEffects = noEffects"
  "quiet (seqEffects e1 e2) = seqEffects (quiet e1) (quiet e2)"
  "quiet \<lparr>calls = cs, logs = [], marks = ms\<rparr> = \<lparr>calls = cs, logs = [], marks = ms\<rparr>"
  by (simp_all add: quiet_def noEffects_def seqEffects_def)

lemma quiet_allEffects: "quiet (allEffects es) = allEffects (map quiet es)"
  by (induction es) (simp_all add: allEffects_Nil allEffects_Cons quiet_simps)

lemma addBlockToBatch_withoutErrors:
  "addBlockToBatch (withoutErrors w) address methodCall name b =
     (fst (addBlockToBatch w address methodCall name b),
      quiet (snd (addBlockToBatch w address methodCall name b)))"
  by (auto simp: addBlockToBatch_def withoutErrors_def quiet_def Let_def split: outcome.splits)

lemma addMethodToBatch_withoutErrors:
  "addMethodToBatch (withoutErrors w) blocks abi address method =
     (fst (addMethodToBatch w blocks abi address method),
      quiet (snd (addMethodToBatch w blocks abi address method)))"
  by (simp add: addMethodToBatch_def Let_def withoutErrors_sel addBlockToBatch_withoutErrors
        quiet_simps quiet_allEffects comp_def split: option.splits)

lemma addAddressToBatch_withoutErrors:
  "addAddressToBatch (withoutErrors w) this blocks readMethods allReadMethods namespace item' =
     (fst (addAddressToBatch w this blocks readMethods allReadMethods namespace item'),
      quiet (snd (addAddressToBatch w this blocks readMethods allReadMethods namespace item')))"
  by (cases item')
     (simp_all add: addAddressToBatch_def Let_def addMethodToBatch_withoutErrors
        quiet_simps quiet_allEffects comp_def split: sum.splits)

lemma addContractToBatch_withoutErrors:
  "addContractToBatch (withoutErrors w) this blocks g =
     (fst (addContractToBatch w this blocks g), quiet (snd (addContractToBatch w this blocks g)))"
  by (simp add: addContractToBatch_def Let_def addAddressToBatch_withoutErrors
        quiet_simps quiet_allEffects comp_def split: option.splits)

lemma cacheAbi_withoutErrors: "cacheAbi (withoutErrors w) = cacheAbi w"
  by (intro ext) (simp add: cacheAbi_def withoutErrors_sel)

lemma fetchAbi_withoutErrors: "fetchAbi (withoutErrors w) = fetchAbi w"
  by (intro ext) (simp add: fetchAbi_def withoutErrors_sel split: option.splits)

lemma addAbiToCache_withoutErrors:
  "addAbiToCache (withoutErrors w) = addAbiToCache w"
  by (intro ext)
     (simp only: addAbiToCache_def cacheAbi_withoutErrors fetchAbi_withoutErrors)

lemma addAbisLoop_withoutErrors:
  "addAbisLoop (withoutErrors w) abi addresses this = addAbisLoop w abi addresses this"
  by (induction addresses arbitrary: this)
     (simp_all add: addAbiToCache_withoutErrors split: sum.splits)

lemma addAbisAll_withoutErrors:
  "addAbisAll (withoutErrors w) contractsBatch this = addAbisAll w contractsBatch this"
  by (induction contractsBatch arbitrary: this)
     (simp_all add: addAbis_def addAbisLoop_withoutErrors split: option.splits prod.splits)

lemma flatNamespaceKey_withoutErrors: "flatNamespaceKey (withoutErrors w) = flatNamespaceKey w"
  by (intro ext)
     (simp add: flatNamespaceKey_def withoutErrors_sel split: option.splits flatEntry.splits)

lemma reshape_withoutErrors: "reshape (withoutErrors w) = reshape w"
  by (intro ext) (simp only: reshape_def flatNamespaceKey_withoutErrors)

lemma quiet_sel:
  "calls (quiet e) = calls e" "marks (quiet e) = marks e"
  "logs (quiet e) = filter (\<lambda>l. \<not> isMethodCallFailed l) (logs e)"
  by (simp_all add: quiet_def)

lemma expansion_withoutErrors:
  "map (addContractToBatch (withoutErrors w) this blocks) contractsBatch =
     map (\<lambda>g. (fst (addContractToBatch w this blocks g),
                 quiet (snd (addContractToBatch w this blocks g)))) contractsBatch"
  by (simp add: addContractToBatch_withoutErrors)

lemma allEffects_quiet_sel:
  "calls (allEffects (map (\<lambda>g. quiet (f g)) gs)) = calls (allEffects (map f gs))"
  "marks (allEffects (map (\<lambda>g. quiet (f g)) gs)) = marks (allEffects (map f gs))"
  "logs (allEffects (map (\<lambda>g. quiet (f g)) gs)) =
     filter (\<lambda>l. \<not> isMethodCallFailed l) (logs (allEffects (map f gs)))"
  using quiet_allEffects[of "map f gs"] quiet_sel[of "allEffects (map f gs)"]
  by (simp_all add: comp_def)

lemma execute_withoutErrors:
  "execute (withoutErrors w) this contractsBatch opts =
     map_option (\<lambda>x. x\<lparr>console := filter (\<lambda>l. \<not> isMethodCallFailed l) (console x)\<rparr>)
       (execute w this contractsBatch opts)"
proof (cases "buildBlocks (getBlockNumber w)
                (blockOption (case opts of None \<Rightarrow> None | Some os \<Rightarrow> o_blockHeight os))
                (blockOption (case opts of None \<Rightarrow> None | Some os \<Rightarrow> o_blockResolution os))")
  case None
  then show ?thesis by (simp add: execute_def Let_def withoutErrors_sel)
next
  case (Some blocks)
  obtain e this' where a: "addAbisAll w contractsBatch this = (e, this')"
    by (cases "addAbisAll w contractsBatch this") auto
  show ?thesis
  proof (cases e)
    case None
    with Some a show ?thesis
      unfolding execute_def reshape_withoutErrors
      by (simp add: Let_def withoutErrors_sel addAbisAll_withoutErrors
            expansion_withoutErrors comp_def allEffects_quiet_sel)
  next
    case (Some err)
    with \<open>buildBlocks _ _ _ = Some blocks\<close> a show ?thesis
      by (simp add: execute_def Let_def withoutErrors_sel addAbisAll_withoutErrors)
  qed
qed

text \<open>
  C4, amended (block-sampling variant). An error reported by the callback of a call
  changes nothing but the console: the run with the errors reported equals, but for the
  lines printed for them, the run in which no callback reports an error; so the call's
  promise resolves, the other calls produce their results and the batch is not aborted.
  The sample of the failed call holds the data the callback passed beside the error
  (\<^verbatim>\<open>undefined\<close> when it passed none), its request has been added to the batch, and
  the line naming address and method is printed.
\<close>

theorem C4_call_error_recovered:
  "execute (withoutErrors w) this contractsBatch opts =
     map_option (\<lambda>x. x\<lparr>console := filter (\<lambda>l. \<not> isMethodCallFailed l) (console x)\<rparr>)
       (execute w this contractsBatch opts)
   \<and> (request w (methodCall\<lparr>call_block := Some b\<rparr>) = Callback (Some msg) data \<longrightarrow>
        addBlockToBatch w address methodCall name b =
          (Some \<lparr>s_value = data, s_blockNumber = b\<rparr>,
           \<lparr>calls = [methodCall\<lparr>call_block := Some b\<rparr>],
            logs = [MethodCallFailed address name], marks = []\<rparr>))"
  by (simp add: execute_withoutErrors addBlockToBatch_def Let_def)


lemma ex_failing_execute:
  "map_option (\<lambda>x. (result x, console x, length (added x)))
     (execute ex_failing ex_engine
        [ex_group [''0xA''] (Some ex_abi) [ex_method ''totalSupply'' None, ex_method ''paused'' None]]
        None)
   = Some (Inr (Tree [[(''address'', FlatText ''0xA''), (''namespace'', FlatText ''default''),
                       (''totalSupply'', FlatBuckets
                          [\<lparr>b_value = Some (JStr ''1000''), b_values = None,
                            b_input = None, b_args = None\<rparr>]),
                       (''paused'', FlatBuckets
                          [\<lparr>b_value = Some JUndefined, b_values = None,
                            b_input = None, b_args = None\<rparr>])]]),
           [MethodCallFailed ''0xA'' ''paused''], 2)"
  by (simp add: ex_defs cache_defs expand_defs reshape_defs Let_def)

theorem C4_call_error_recovered_witness:
  "request ex_failing
     (\<lparr>call_address = ''0xA'', call_name = ''paused'', call_args = [], call_block = None\<rparr>
        \<lparr>call_block := Some 100\<rparr>) = Callback (Some ''timeout'') JUndefined
   \<and> addBlockToBatch ex_failing ''0xA''
        \<lparr>call_address = ''0xA'', call_name = ''paused'', call_args = [], call_block = None\<rparr>
        ''paused'' 100
      = (Some \<lparr>s_value = JUndefined, s_blockNumber = 100\<rparr>,
         \<lparr>calls = [\<lparr>call_address = ''0xA'', call_name = ''paused'', call_args = [],
                    call_block = Some 100\<rparr>],
          logs = [MethodCallFailed ''0xA'' ''paused''], marks = []\<rparr>)
   \<and> map_option (\<lambda>x. (result x, console x, length (added x)))
       (execute (withoutErrors ex_failing) ex_engine
          [ex_group [''0xA''] (Some ex_abi) [ex_method ''totalSupply'' None, ex_method ''paused'' None]]
          None)
      = Some (Inr (Tree [[(''address'', FlatText ''0xA''), (''namespace'', FlatText ''default''),
                       (''totalSupply'', FlatBuckets
                          [\<lparr>b_value = Some (JStr ''1000''), b_values = None,
                            b_input = None, b_args = None\<rparr>]),
                       (''paused'', FlatBuckets
                          [\<lparr>b_value = Some JUndefined, b_values = None,
                            b_input = None, b_args = None\<rparr>])]]),
              [], 2)"
proof -
  let ?mc = "\<lparr>call_address = ''0xA'', call_name = ''paused'', call_args = [], call_block = None\<rparr>"
  let ?B = "[ex_group [''0xA''] (Some ex_abi) [ex_method ''totalSupply'' None, ex_method ''paused'' None]]"
  have r: "request ex_failing (?mc\<lparr>call_block := Some 100\<rparr>) = Callback (Some ''timeout'') JUndefined"
    by (simp add: ex_defs)
  note t = C4_call_error_recovered[where w = ex_failing and this = ex_engine
             and contractsBatch = ?B and opts = None and methodCall = ?mc and b = 100
             and msg = "''timeout''" and data = JUndefined and address = "''0xA''"
             and name = "''paused''"]
  from t r have b: "addBlockToBatch ex_failing ''0xA'' ?mc ''paused'' 100 =
          (Some \<lparr>s_value = JUndefined, s_blockNumber = 100\<rparr>,
           \<lparr>calls = [?mc\<lparr>call_block := Some 100\<rparr>],
            logs = [MethodCallFailed ''0xA'' ''paused''], marks = []\<rparr>)"
    by blast
  from t have e: "execute (withoutErrors ex_failing) ex_engine ?B None =
     map_option (\<lambda>x. x\<lparr>console := filter (\<lambda>l. \<not> isMethodCallFailed l) (console x)\<rparr>)
       (execute ex_failing ex_engine ?B None)"
    by blast
  obtain x where x: "execute ex_failing ex_engine ?B None = Some x"
    using execute_returns[of None ex_failing ex_engine ?B] by (auto simp: blockOption_def)
  from ex_failing_execute x have v: "result x = Inr (Tree [[(''address'', FlatText ''0xA''), (''namespace'', FlatText ''default''),
                       (''totalSupply'', FlatBuckets
                          [\<lparr>b_value = Some (JStr ''1000''), b_values = None,
                            b_input = None, b_args = None\<rparr>]),
                       (''paused'', FlatBuckets
                          [\<lparr>b_value = Some JUndefined, b_values = None,
                            b_input = None, b_args = None\<rparr>])]])"
      "console x = [MethodCallFailed ''0xA'' ''paused'']" "length (added x) = 2"
    by auto
  show ?thesis using r b by (simp add: e x v)
qed

subsection \<open>Methods absent from the contract\<close>

lemma seqEffects_noEffects: "seqEffects noEffects e = e" "seqEffects e noEffects = e"
  by (cases e; simp add: seqEffects_def noEffects_def)+

lemma seqEffects_assoc: "seqEffects (seqEffects a b) c = seqEffects a (seqEffects b c)"
  by (simp add: seqEffects_def)

lemma allEffects_append: "allEffects (es1 @ es2) = seqEffects (allEffects es1) (allEffects es2)"
  by (induction es1)
     (simp_all add: allEffects_Nil allEffects_Cons seqEffects_noEffects seqEffects_assoc)

lemma allEffects_skip: "allEffects (es1 @ noEffects # es2) = allEffects (es1 @ es2)"
  by (simp add: allEffects_append allEffects_Cons seqEffects_noEffects)

lemma promiseAll_skip:
  "map_sum id (filter (\<lambda>r. r \<noteq> None)) (promiseAll (A @ Inr None # B)) =
   map_sum id (filter (\<lambda>r. r \<noteq> None)) (promiseAll (A @ B))"
proof (induction A)
  case Nil
  then show ?case by (simp split: sum.splits)
next
  case (Cons a A)
  then show ?case by (cases a) (auto split: sum.splits)
qed

lemma promiseAll_cong2:
  "list_all2 (\<lambda>x y. map_sum id h x = map_sum id h y) xs ys \<Longrightarrow>
     map_sum id (map h) (promiseAll xs) = map_sum id (map h) (promiseAll ys)"
proof (induction rule: list_all2_induct)
  case Nil
  then show ?case by simp
next
  case (Cons x xs y ys)
  then show ?case by (cases x; cases y) (auto split: sum.splits)
qed

lemma addMethodToBatch_skipped:
  "\<not> contractMethods w abi address (m_name method) \<Longrightarrow>
     addMethodToBatch w blocks abi address method = (Inr None, noEffects)"
  by (simp add: addMethodToBatch_def Let_def)

lemma addAddressToBatch_itemAbi:
  "addAddressToBatch w this blocks readMethods allReadMethods namespace item' =
     (let address = itemAddress item';
          methodsPromises = map (addMethodToBatch w blocks (itemAbi this item') address)
             (filter (filterOutConstants (readContracts this) address)
                (readMethods @ (if allReadMethods
                   then map formatField (store_getReadableAbiFields this address) else [])));
          methodsEffects = allEffects (map snd methodsPromises)
      in case promiseAll (map fst methodsPromises) of
           Inl e \<Rightarrow> (Inl e, methodsEffects)
         | Inr methodsState \<Rightarrow>
             (Inr \<lparr>a_address = address, a_namespace = namespace, a_state = methodsState\<rparr>,
              seqEffects methodsEffects \<lparr>calls = [], logs = [], marks = [address]\<rparr>))"
  by (cases item')
     (simp_all only: addAddressToBatch_def Let_def item.case prod.case
        itemAddress.simps itemAbi.simps)

lemma settle_skip:
  assumes "map_sum id (filter (\<lambda>r. r \<noteq> None)) P1 = map_sum id (filter (\<lambda>r. r \<noteq> None)) P2"
      and "E1 = E2"
  shows "map_sum id dropSkipped
           (fst (case P1 of Inl e \<Rightarrow> (Inl e, E1)
                 | Inr st \<Rightarrow> (Inr \<lparr>a_address = a, a_namespace = n, a_state = st\<rparr>,
                             seqEffects E1 M))) =
         map_sum id dropSkipped
           (fst (case P2 of Inl e \<Rightarrow> (Inl e, E2)
                 | Inr st \<Rightarrow> (Inr \<lparr>a_address = a, a_namespace = n, a_state = st\<rparr>,
                             seqEffects E2 M)))"
    and "snd (case P1 of Inl e \<Rightarrow> (Inl e, E1)
                 | Inr st \<Rightarrow> (Inr \<lparr>a_address = a, a_namespace = n, a_state = st\<rparr>,
                             seqEffects E1 M)) =
         snd (case P2 of Inl e \<Rightarrow> (Inl e, E2)
                 | Inr st \<Rightarrow> (Inr \<lparr>a_address = a, a_namespace = n, a_state = st\<rparr>,
                             seqEffects E2 M))"
  using assms by (cases P1; cases P2; simp add: dropSkipped_def)+

lemma addAddressToBatch_skip:
  assumes "\<not> contractMethods w (itemAbi this item') (itemAddress item') (m_name m)"
  shows "map_sum id dropSkipped
           (fst (addAddressToBatch w this blocks (xs @ m # ys) allReadMethods namespace item')) =
         map_sum id dropSkipped
           (fst (addAddressToBatch w this blocks (xs @ ys) allReadMethods namespace item'))"
    and "snd (addAddressToBatch w this blocks (xs @ m # ys) allReadMethods namespace item') =
         snd (addAddressToBatch w this blocks (xs @ ys) allReadMethods namespace item')"
proof -
  let ?F = "filterOutConstants (readContracts this) (itemAddress item')"
  let ?P = "addMethodToBatch w blocks (itemAbi this item') (itemAddress item')"
  let ?extra = "if allReadMethods
                   then map formatField (store_getReadableAbiFields this (itemAddress item')) else []"
  let ?A = "map ?P (filter ?F xs)"
  let ?B = "map ?P (filter ?F (ys @ ?extra))"
  let ?ps1 = "map ?P (filter ?F ((xs @ m # ys) @ ?extra))"
  let ?ps2 = "map ?P (filter ?F ((xs @ ys) @ ?extra))"
  have two: "?ps2 = ?A @ ?B" by simp
  have one: "?ps1 = (if ?F m then ?A @ (Inr None, noEffects) # ?B else ?A @ ?B)"
    using addMethodToBatch_skipped[OF assms, of blocks] by simp
  have p: "map_sum id (filter (\<lambda>r. r \<noteq> None)) (promiseAll (map fst ?ps1)) =
           map_sum id (filter (\<lambda>r. r \<noteq> None)) (promiseAll (map fst ?ps2))"
    unfolding one two using promiseAll_skip[of "map fst ?A" "map fst ?B"] by simp
  have e: "allEffects (map snd ?ps1) = allEffects (map snd ?ps2)"
    unfolding one two using allEffects_skip[of "map snd ?A" "map snd ?B"] by simp
  show "map_sum id dropSkipped
           (fst (addAddressToBatch w this blocks (xs @ m # ys) allReadMethods namespace item')) =
         map_sum id dropSkipped
           (fst (addAddressToBatch w this blocks (xs @ ys) allReadMethods namespace item'))"
    unfolding addAddressToBatch_itemAbi Let_def by (rule settle_skip(1)[OF p e])
  show "snd (addAddressToBatch w this blocks (xs @ m # ys) allReadMethods namespace item') =
         snd (addAddressToBatch w this blocks (xs @ ys) allReadMethods namespace item')"
    unfolding addAddressToBatch_itemAbi Let_def by (rule settle_skip(2)[OF p e])
qed

lemma addAbisAll_cong:
  "map (\<lambda>g. (g_addresses g, g_contracts g, g_abi g)) gs =
   map (\<lambda>g. (g_addresses g, g_contracts g, g_abi g)) gs' \<Longrightarrow>
     addAbisAll w gs this = addAbisAll w gs' this"
proof (induction gs arbitrary: gs' this)
  case Nil
  then show ?case by simp
next
  case (Cons g gs)
  then obtain g' gs'' where gs': "gs' = g' # gs''" by (cases gs') auto
  with Cons.prems have h: "g_addresses g = g_addresses g'" "g_contracts g = g_contracts g'"
      "g_abi g = g_abi g'"
    and t: "map (\<lambda>g. (g_addresses g, g_contracts g, g_abi g)) gs =
            map (\<lambda>g. (g_addresses g, g_contracts g, g_abi g)) gs''"
    by auto
  show ?case unfolding gs'
    by (simp add: addAbis_def h Cons.IH[OF t] split: option.splits prod.splits)
qed

lemma foldE_skipped:
  "foldE (addMethodResults a ns) (filter (\<lambda>r. r \<noteq> None) st) acc =
   foldE (addMethodResults a ns) st acc"
proof (induction st arbitrary: acc)
  case Nil
  then show ?case by simp
next
  case (Cons r st)
  have n: "\<And>acc. addMethodResults a ns None acc = Inr acc"
    by (simp add: addMethodResults_def)
  from Cons show ?case
    by (cases r) (simp_all add: n del: not_None_eq split: sum.splits)
qed

lemma addAddressCalls_dropSkipped:
  "addAddressCalls (dropSkipped ac) acc = addAddressCalls ac acc"
  by (simp add: addAddressCalls_def dropSkipped_def foldE_skipped del: not_None_eq)

lemma foldE_map: "foldE f (map h xs) acc = foldE (\<lambda>x. f (h x)) xs acc"
  by (induction xs arbitrary: acc) (simp_all split: sum.splits)

lemma addAddressCalls_dropSkipped_fun:
  "(\<lambda>x. addAddressCalls (dropSkipped x)) = addAddressCalls"
  by (intro ext) (rule addAddressCalls_dropSkipped)

lemma formatContractsState_dropSkipped:
  "formatContractsState acc (map dropSkipped cc) = formatContractsState acc cc"
  by (simp add: formatContractsState_def foldE_map addAddressCalls_dropSkipped_fun)

lemma reshape_dropSkipped:
  "reshape w this (map (map dropSkipped) rs) = reshape w this rs"
  by (simp add: reshape_def foldE_map formatContractsState_dropSkipped)

lemma reshape_settled:
  "(case map_sum id (map (map dropSkipped)) P of Inl e \<Rightarrow> Inl e | Inr rs \<Rightarrow> reshape w this rs) =
   (case P of Inl e \<Rightarrow> Inl e | Inr rs \<Rightarrow> reshape w this rs)"
  by (cases P) (simp_all add: reshape_dropSkipped)

lemma addContractToBatch_skip:
  assumes "g_readMethods g = Some (xs @ m # ys)"
      and "objectToIterateOver g = Some items"
      and "\<forall>item' \<in> set items.
             \<not> contractMethods w (itemAbi this item') (itemAddress item') (m_name m)"
  shows "map_sum id (map dropSkipped) (fst (addContractToBatch w this blocks g)) =
         map_sum id (map dropSkipped)
           (fst (addContractToBatch w this blocks (g\<lparr>g_readMethods := Some (xs @ ys)\<rparr>)))"
    and "snd (addContractToBatch w this blocks g) =
         snd (addContractToBatch w this blocks (g\<lparr>g_readMethods := Some (xs @ ys)\<rparr>))"
proof -
  let ?g' = "g\<lparr>g_readMethods := Some (xs @ ys)\<rparr>"
  let ?f1 = "addAddressToBatch w this blocks (xs @ m # ys) (g_allReadMethods g) (namespaceOf g)"
  let ?f2 = "addAddressToBatch w this blocks (xs @ ys) (g_allReadMethods g) (namespaceOf g)"
  have o: "objectToIterateOver ?g' = Some items"
    using assms(2) by (simp add: objectToIterateOver_def split: option.splits)
  have n: "namespaceOf ?g' = namespaceOf g" by (simp add: namespaceOf_def)
  have r1: "readMethodsOf g = xs @ m # ys" using assms(1) by (simp add: readMethodsOf_def)
  have r2: "readMethodsOf ?g' = xs @ ys" by (simp add: readMethodsOf_def)
  have c1: "addContractToBatch w this blocks g =
              (promiseAll (map fst (map ?f1 items)), allEffects (map snd (map ?f1 items)))"
    by (simp add: addContractToBatch_def assms(2) r1 Let_def)
  have c2: "addContractToBatch w this blocks ?g' =
              (promiseAll (map fst (map ?f2 items)), allEffects (map snd (map ?f2 items)))"
    by (simp add: addContractToBatch_def o r2 n Let_def)
  have "list_all2 (\<lambda>x y. map_sum id dropSkipped x = map_sum id dropSkipped y)
          (map fst (map ?f1 items)) (map fst (map ?f2 items))"
    using assms(3) addAddressToBatch_skip(1)[of w this _ m blocks xs ys]
    by (simp add: list_all2_map1 list_all2_map2 list.rel_refl_strong)
  from promiseAll_cong2[OF this]
  show "map_sum id (map dropSkipped) (fst (addContractToBatch w this blocks g)) =
         map_sum id (map dropSkipped) (fst (addContractToBatch w this blocks ?g'))"
    by (simp add: c1 c2)
  have "map snd (map ?f1 items) = map snd (map ?f2 items)"
    using assms(3) addAddressToBatch_skip(2)[of w this _ m blocks xs ys] by simp
  then show "snd (addContractToBatch w this blocks g) =
         snd (addContractToBatch w this blocks ?g')"
    by (simp only: c1 c2 snd_conv)
qed

lemma expansion_skip:
  assumes "g_readMethods g = Some (xs @ m # ys)"
      and "objectToIterateOver g = Some items"
      and "\<forall>item' \<in> set items.
             \<not> contractMethods w (itemAbi this item') (itemAddress item') (m_name m)"
  shows "map_sum id (map (map dropSkipped))
           (promiseAll (map fst (map (addContractToBatch w this blocks) (pre @ g # post)))) =
         map_sum id (map (map dropSkipped))
           (promiseAll (map fst (map (addContractToBatch w this blocks)
              (pre @ g\<lparr>g_readMethods := Some (xs @ ys)\<rparr> # post))))"
    and "map snd (map (addContractToBatch w this blocks) (pre @ g # post)) =
         map snd (map (addContractToBatch w this blocks)
              (pre @ g\<lparr>g_readMethods := Some (xs @ ys)\<rparr> # post))"
proof -
  note s = addContractToBatch_skip[OF assms, of blocks]
  have "list_all2 (\<lambda>x y. map_sum id (map dropSkipped) x = map_sum id (map dropSkipped) y)
          (map fst (map (addContractToBatch w this blocks) (pre @ g # post)))
          (map fst (map (addContractToBatch w this blocks)
              (pre @ g\<lparr>g_readMethods := Some (xs @ ys)\<rparr> # post)))"
    using s(1) by (simp add: list_all2_appendI list_all2_map1 list_all2_map2 list.rel_refl)
  from promiseAll_cong2[OF this]
  show "map_sum id (map (map dropSkipped))
           (promiseAll (map fst (map (addContractToBatch w this blocks) (pre @ g # post)))) =
         map_sum id (map (map dropSkipped))
           (promiseAll (map fst (map (addContractToBatch w this blocks)
              (pre @ g\<lparr>g_readMethods := Some (xs @ ys)\<rparr> # post))))" .
  show "map snd (map (addContractToBatch w this blocks) (pre @ g # post)) =
         map snd (map (addContractToBatch w this blocks)
              (pre @ g\<lparr>g_readMethods := Some (xs @ ys)\<rparr> # post))"
    using s(2) by simp
qed

lemma execute_skip:
  assumes "g_readMethods g = Some (xs @ m # ys)"
      and "objectToIterateOver g = Some items"
      and "\<forall>item' \<in> set items.
             \<not> contractMethods w (itemAbi (snd (addAbisAll w (pre @ g # post) this)) item')
                  (itemAddress item') (m_name m)"
  shows "execute w this (pre @ g # post) opts =
         execute w this (pre @ g\<lparr>g_readMethods := Some (xs @ ys)\<rparr> # post) opts"
proof (cases "buildBlocks (getBlockNumber w)
                (blockOption (case opts of None \<Rightarrow> None | Some os \<Rightarrow> o_blockHeight os))
                (blockOption (case opts of None \<Rightarrow> None | Some os \<Rightarrow> o_blockResolution os))")
  case None
  then show ?thesis by (simp add: execute_def Let_def)
next
  case (Some blocks)
  let ?B1 = "pre @ g # post"
  let ?B2 = "pre @ g\<lparr>g_readMethods := Some (xs @ ys)\<rparr> # post"
  obtain e this' where a1: "addAbisAll w ?B1 this = (e, this')"
    by (cases "addAbisAll w ?B1 this") auto
  have a2: "addAbisAll w ?B2 this = (e, this')"
    using addAbisAll_cong[of ?B2 ?B1 w this] a1 by simp
  have h: "\<forall>item' \<in> set items.
             \<not> contractMethods w (itemAbi this' item') (itemAddress item') (m_name m)"
    using assms(3) a1 by simp
  note s = expansion_skip[OF assms(1,2) h, of blocks pre post]
  have R: "(case promiseAll (map fst (map (addContractToBatch w this' blocks) ?B1)) of
              Inl e \<Rightarrow> Inl e | Inr rs \<Rightarrow> reshape w this' rs) =
           (case promiseAll (map fst (map (addContractToBatch w this' blocks) ?B2)) of
              Inl e \<Rightarrow> Inl e | Inr rs \<Rightarrow> reshape w this' rs)"
    using reshape_settled[where P = "promiseAll (map fst (map (addContractToBatch w this' blocks) ?B1))"
            and w = w and this = this']
          reshape_settled[where P = "promiseAll (map fst (map (addContractToBatch w this' blocks) ?B2))"
            and w = w and this = this']
          s(1)
    by simp
  show ?thesis
  proof (cases e)
    case None
    with Some a1 a2 show ?thesis
      by (simp only: execute_def Let_def option.case prod.case R s(2))
  next
    case (Some err)
    with \<open>buildBlocks _ _ _ = Some blocks\<close> a1 a2 show ?thesis
      by (simp only: execute_def Let_def option.case prod.case)
  qed
qed


text \<open>
  C6. A method named in a group's \<open>readMethods\<close> that is not on the callable surface of
  the contract handle of any item of the group is skipped silently: \<open>execute\<close> behaves
  exactly as on the request without that entry (same result or error, same requests
  added to the batch, same console lines, same engine afterwards). For each item
  \<open>addMethodToBatch\<close> resolves with \<^verbatim>\<open>undefined\<close>, with no error and no request added,
  and \<open>addMethodResults\<close> leaves the tree as it is for such a result.
\<close>

theorem C6_absent_method_skipped:
  assumes "g_readMethods g = Some (xs @ m # ys)"
      and "objectToIterateOver g = Some items"
      and "\<forall>item' \<in> set items.
             \<not> contractMethods w (itemAbi (snd (addAbisAll w (pre @ g # post) this)) item')
                  (itemAddress item') (m_name m)"
  shows "execute w this (pre @ g # post) opts =
           execute w this (pre @ g\<lparr>g_readMethods := Some (xs @ ys)\<rparr> # post) opts
       \<and> (\<forall>item' \<in> set items.
             addMethodToBatch w blocks (itemAbi (snd (addAbisAll w (pre @ g # post) this)) item')
               (itemAddress item') m = (Inr None, noEffects))
       \<and> addMethodResults address namespace None acc = Inr acc"
  using execute_skip[OF assms] assms(3)
  by (simp add: addMethodToBatch_skipped addMethodResults_def)

lemma ex_absent_method:
  "\<not> contractMethods ex_web3
       (itemAbi (snd (addAbisAll ex_web3
          ([] @ ex_group [''0xA''] (Some ex_abi)
                  [ex_method ''totalSupply'' None, ex_method ''decimals'' None] # []) ex_engine))
          (AddressItem ''0xA''))
       (itemAddress (AddressItem ''0xA'')) (m_name (ex_method ''decimals'' None))"
  by (simp add: ex_defs cache_defs store_getAbiFromCache_def findAbiMethod_def Let_def)

lemma ex_without_absent_method:
  "map_option (\<lambda>x. (result x, added x))
     (execute ex_web3 ex_engine
        ([] @ (ex_group [''0xA''] (Some ex_abi)
                  [ex_method ''totalSupply'' None, ex_method ''decimals'' None])
                \<lparr>g_readMethods := Some ([ex_method ''totalSupply'' None] @ [])\<rparr> # []) None)
   = Some (Inr (Tree [[(''address'', FlatText ''0xA''), (''namespace'', FlatText ''default''),
                       (''totalSupply'', FlatBuckets
                          [\<lparr>b_value = Some (JStr ''1000''), b_values = None,
                            b_input = None, b_args = None\<rparr>])]]),
           [\<lparr>call_address = ''0xA'', call_name = ''totalSupply'', call_args = [],
             call_block = Some 100\<rparr>])"
  by (simp add: ex_defs cache_defs expand_defs reshape_defs Let_def)

theorem C6_absent_method_skipped_witness:
  "g_readMethods (ex_group [''0xA''] (Some ex_abi)
                    [ex_method ''totalSupply'' None, ex_method ''decimals'' None])
     = Some ([ex_method ''totalSupply'' None] @ ex_method ''decimals'' None # [])
   \<and> objectToIterateOver (ex_group [''0xA''] (Some ex_abi)
                    [ex_method ''totalSupply'' None, ex_method ''decimals'' None])
     = Some [AddressItem ''0xA'']
   \<and> \<not> contractMethods ex_web3
       (itemAbi (snd (addAbisAll ex_web3
          ([] @ ex_group [''0xA''] (Some ex_abi)
                  [ex_method ''totalSupply'' None, ex_method ''decimals'' None] # []) ex_engine))
          (AddressItem ''0xA''))
       (itemAddress (AddressItem ''0xA'')) (m_name (ex_method ''decimals'' None))
   \<and> map_option (\<lambda>x. (result x, added x))
       (execute ex_web3 ex_engine
          ([] @ ex_group [''0xA''] (Some ex_abi)
                  [ex_method ''totalSupply'' None, ex_method ''decimals'' None] # []) None)
     = Some (Inr (Tree [[(''address'', FlatText ''0xA''), (''namespace'', FlatText ''default''),
                       (''totalSupply'', FlatBuckets
                          [\<lparr>b_value = Some (JStr ''1000''), b_values = None,
                            b_input = None, b_args = None\<rparr>])]]),
           [\<lparr>call_address = ''0xA'', call_name = ''totalSupply'', call_args = [],
             call_block = Some 100\<rparr>])"
proof -
  let ?g = "ex_group [''0xA''] (Some ex_abi)
                    [ex_method ''totalSupply'' None, ex_method ''decimals'' None]"
  have r: "g_readMethods ?g = Some ([ex_method ''totalSupply'' None] @ ex_method ''decimals'' None # [])"
    by (simp add: ex_group_def)
  have o: "objectToIterateOver ?g = Some [AddressItem ''0xA'']"
    by (simp add: ex_group_def objectToIterateOver_def)
  have h: "\<forall>item' \<in> set [AddressItem ''0xA''].
             \<not> contractMethods ex_web3
                  (itemAbi (snd (addAbisAll ex_web3 ([] @ ?g # []) ex_engine)) item')
                  (itemAddress item') (m_name (ex_method ''decimals'' None))"
    using ex_absent_method by simp
  from C6_absent_method_skipped[OF r o h, of None]
  have "execute ex_web3 ex_engine ([] @ ?g # []) None =
        execute ex_web3 ex_engine
          ([] @ ?g\<lparr>g_readMethods := Some ([ex_method ''totalSupply'' None] @ [])\<rparr> # []) None"
    by blast
  then show ?thesis using r o ex_absent_method ex_without_absent_method by simp
qed

section \<open>Properties of batchCall.js\<close>

text \<open>
  C4, as stated, fails for \<^verbatim>\<open>batchCall.js\<close>: there the callback rejects the promise of
  the method on an error, and \<open>execute\<close> returns the error object in place of the
  tree. The transport answers \<open>totalSupply\<close> and reports an error for \<open>paused\<close>; the
  result holds no value for either.
\<close>

theorem C4_counterexample:
  "result (batchCall_execute ex_failing ex_engine
            [ex_group [''0xA''] (Some ex_abi)
               [ex_method ''totalSupply'' None, ex_method ''paused'' None]] None)
   = Inr (ErrorObject (TransportError ''timeout''))"
  by (simp add: ex_defs cache_defs batchCall_defs Let_def)

end
